theory Spec2Isabelle
  imports Complex_Main "HOL-Library.Word" "HOL-Library.Sublist"
begin

unbundle bit_operations_syntax

section \<open>GameRenderer.cpp: a shallow embedding\<close>

text \<open>
  The embedding follows \<^verbatim>\<open>src/rwengine/src/render/GameRenderer.cpp\<close>.
  C++ \<^verbatim>\<open>float\<close> values are idealised as \<^typ>\<open>real\<close>: the properties
  below are about control flow, draw order and counters, none of them about rounding.
  OpenGL calls are recorded, in program order, in a trace; the renderer's mutable members
  (\<^verbatim>\<open>rendered\<close>, \<^verbatim>\<open>culled\<close>, \<^verbatim>\<open>transparentDrawQueue\<close>)
  and \<^verbatim>\<open>std::cout\<close> are threaded through as an explicit state. A null-pointer
  dereference or an out-of-range \<^verbatim>\<open>operator[]\<close> is undefined behaviour in the
  source; the model returns an error value there.
\<close>

subsection \<open>Vectors and matrices (glm)\<close>

type_synonym vec2 = "real \<times> real"
type_synonym vec3 = "real \<times> real \<times> real"
type_synonym vec4 = "real \<times> real \<times> real \<times> real"

text \<open>A \<^verbatim>\<open>glm::mat4\<close> is column-major: \<^verbatim>\<open>m[3]\<close> is the fourth column.\<close>

type_synonym mat4 = "vec4 \<times> vec4 \<times> vec4 \<times> vec4"

definition vec3_add :: "vec3 \<Rightarrow> vec3 \<Rightarrow> vec3" where
  "vec3_add a b = (case a of (ax, ay, az) \<Rightarrow> case b of (bx, by, bz) \<Rightarrow> (ax + bx, ay + by, az + bz))"

definition vec3_sub :: "vec3 \<Rightarrow> vec3 \<Rightarrow> vec3" where
  "vec3_sub a b = (case a of (ax, ay, az) \<Rightarrow> case b of (bx, by, bz) \<Rightarrow> (ax - bx, ay - by, az - bz))"

definition vec3_dot :: "vec3 \<Rightarrow> vec3 \<Rightarrow> real" where
  "vec3_dot a b = (case a of (ax, ay, az) \<Rightarrow> case b of (bx, by, bz) \<Rightarrow> ax * bx + ay * by + az * bz)"

definition vec3_length :: "vec3 \<Rightarrow> real" where
  "vec3_length a = sqrt (vec3_dot a a)"

definition vec2_distance :: "vec2 \<Rightarrow> vec2 \<Rightarrow> real" where
  "vec2_distance a b =
     (case a of (ax, ay) \<Rightarrow> case b of (bx, by) \<Rightarrow> sqrt ((ax - bx) * (ax - bx) + (ay - by) * (ay - by)))"

definition vec4_add :: "vec4 \<Rightarrow> vec4 \<Rightarrow> vec4" where
  "vec4_add a b =
     (case a of (ax, ay, az, aw) \<Rightarrow> case b of (bx, by, bz, bw) \<Rightarrow> (ax + bx, ay + by, az + bz, aw + bw))"

definition vec4_scale :: "vec4 \<Rightarrow> real \<Rightarrow> vec4" where
  "vec4_scale a k = (case a of (ax, ay, az, aw) \<Rightarrow> (ax * k, ay * k, az * k, aw * k))"

definition mat4_identity :: mat4 where
  "mat4_identity = ((1, 0, 0, 0), (0, 1, 0, 0), (0, 0, 1, 0), (0, 0, 0, 1))"

definition mat4_mul_vec4 :: "mat4 \<Rightarrow> vec4 \<Rightarrow> vec4" where
  "mat4_mul_vec4 m v =
     (case m of (c0, c1, c2, c3) \<Rightarrow> case v of (vx, vy, vz, vw) \<Rightarrow>
        vec4_add (vec4_add (vec4_scale c0 vx) (vec4_scale c1 vy))
                 (vec4_add (vec4_scale c2 vz) (vec4_scale c3 vw)))"

definition mat4_mul :: "mat4 \<Rightarrow> mat4 \<Rightarrow> mat4" where
  "mat4_mul a b =
     (case b of (b0, b1, b2, b3) \<Rightarrow>
        (mat4_mul_vec4 a b0, mat4_mul_vec4 a b1, mat4_mul_vec4 a b2, mat4_mul_vec4 a b3))"

text \<open>\<^verbatim>\<open>glm::vec3(matrix[3])\<close>: the translation column.\<close>

definition mat4_col3 :: "mat4 \<Rightarrow> vec3" where
  "mat4_col3 m = (case m of (c0, c1, c2, (tx, ty, tz, tw)) \<Rightarrow> (tx, ty, tz))"

definition glm_translate :: "mat4 \<Rightarrow> vec3 \<Rightarrow> mat4" where
  "glm_translate m v =
     (case m of (c0, c1, c2, c3) \<Rightarrow> case v of (vx, vy, vz) \<Rightarrow>
        (c0, c1, c2,
         vec4_add (vec4_add (vec4_scale c0 vx) (vec4_scale c1 vy)) (vec4_add (vec4_scale c2 vz) c3)))"

definition glm_scale :: "mat4 \<Rightarrow> vec3 \<Rightarrow> mat4" where
  "glm_scale m v =
     (case m of (c0, c1, c2, c3) \<Rightarrow> case v of (vx, vy, vz) \<Rightarrow>
        (vec4_scale c0 vx, vec4_scale c1 vy, vec4_scale c2 vz, c3))"

text \<open>A quaternion \<open>(w, x, y, z)\<close> and \<^verbatim>\<open>glm::mat4_cast\<close>.\<close>

type_synonym quat = "real \<times> real \<times> real \<times> real"

definition mat4_cast :: "quat \<Rightarrow> mat4" where
  "mat4_cast q =
     (case q of (w, x, y, z) \<Rightarrow>
        ((1 - 2 * (y * y + z * z), 2 * (x * y + w * z), 2 * (x * z - w * y), 0),
         (2 * (x * y - w * z), 1 - 2 * (x * x + z * z), 2 * (y * z + w * x), 0),
         (2 * (x * z + w * y), 2 * (y * z - w * x), 1 - 2 * (x * x + y * y), 0),
         (0, 0, 0, 1)))"

subsection \<open>Data model\<close>

datatype ModelFrame =
  ModelFrame (getName: string) (getTransform: mat4) (getGeometries: "nat list")
             (getChildren: "ModelFrame list")

record BSGeometryBounds =
  center :: vec3
  radius :: real

record SubGeometry =
  start :: nat
  numIndices :: nat
  material :: nat

record Material =
  textures :: "string list"
  colour :: "8 word \<times> 8 word \<times> 8 word \<times> 8 word"
  mat_flags :: "32 word"
  diffuseIntensity :: real
  ambientIntensity :: real

record Geometry =
  geometryBounds :: BSGeometryBounds
  subgeom :: "SubGeometry list"
  materials :: "Material list"
  geom_flags :: "32 word"
  dbuff_VAOName :: nat
  dbuff_FaceType :: nat
  EBO :: nat

record Model =
  frames :: "ModelFrame list"
  geometries :: "Geometry list"
  rootFrameIdx :: nat

record TextureInfo =
  texName :: nat
  transparent :: bool

datatype ObjectType = Character | Instance | Vehicle

text \<open>
  \<^verbatim>\<open>Animator::getFrameMatrix(frame, alpha, fixed)\<close> belongs to the animation
  collaborator; an animator is given by that function.
\<close>

type_synonym Animator = "ModelFrame \<Rightarrow> real \<Rightarrow> bool \<Rightarrow> mat4"

text \<open>A \<^verbatim>\<open>ModelHandle\<close> holds a \<^verbatim>\<open>Model*\<close> that is null until the asset is loaded.\<close>

type_synonym ModelHandle = "Model option"

record GameObject =
  obj_type :: ObjectType
  obj_position :: vec3
  obj_rotation :: quat
  obj_model :: "ModelHandle option"
  animator :: "Animator option"
  isAnimationFixed :: bool
  isFrameVisible :: "ModelFrame \<Rightarrow> bool"
  colourPrimary :: vec3
  colourSecondary :: vec3

record ObjectData =
  numClumps :: nat
  drawDistance :: "nat \<Rightarrow> real"
  LOD :: bool
  timeOn :: int
  timeOff :: int
  modelName :: string

datatype InstanceObject =
  InstanceObject (inst_object: ObjectData) (inst_model: "ModelHandle option")
                 (inst_body: "mat4 option") (inst_position: vec3) (inst_scale: vec3)
                 (inst_rotation: quat) (LODinstance: "InstanceObject option")

text \<open>One wheel of \<^verbatim>\<open>physVehicle\<close>: its world transform after
  \<^verbatim>\<open>updateWheelTransform\<close> and the x coordinate of its chassis connection point.\<close>

record WheelInfo =
  wheelTransformWS :: mat4
  chassisConnectionPointCS_x :: real

record VehicleObject =
  veh_object :: GameObject
  wheelModelID :: nat
  wheelScale :: real
  veh_modelName :: string
  info_wheels :: nat
  physVehicle :: "WheelInfo list"

record DrawCall =
  dc_model :: Model
  dc_g :: nat
  dc_sg :: nat
  dc_matrix :: mat4
  dc_object :: "GameObject option"

record Plane =
  normal :: vec3
  distance :: real

datatype gl_call =
    BindVertexArray nat
  | BindBuffer nat
  | BindTexture nat
  | UniformModel mat4
  | UniformCol real real real real
  | UniformMatDiffuse real
  | UniformMatAmbient real
  | DrawElements nat nat nat
  | UseWaterProgram
  | UniformWaterSize real
  | UniformWaterHeight real
  | UniformWaterMVP mat4
  | DrawArrays nat nat nat
  | UseWorldProgram
  | ClearFrame
  | UseSkyProgram
  | DrawSkydome nat

datatype log_line = ModelNotLoaded string nat | WheelModelNotLoaded string

record RenderState =
  rendered :: nat
  culled :: nat
  transparentDrawQueue :: "DrawCall list"
  gl :: "gl_call list"
  cout :: "log_line list"

text \<open>
  What a frame reads and never writes: the members of \<^verbatim>\<open>GameWorld\<close> and
  \<^verbatim>\<open>GameData\<close> reached through \<^verbatim>\<open>engine\<close>, the camera, and the
  constants of headers that are declared outside this file
  (\<^verbatim>\<open>RW::BSGeometry::ModuleMaterialColor\<close>, \<^verbatim>\<open>Model::MTF_*\<close>,
  \<^verbatim>\<open>WATER_*\<close>, \<^verbatim>\<open>NO_WATER_INDEX\<close>), taken as parameters.
  \<^verbatim>\<open>glm::inverse\<close> is a parameter as well. \<open>water_texName\<close> is the
  \<^verbatim>\<open>texName\<close> of \<^verbatim>\<open>gameData.textures["water_old"]\<close>, \<open>getHour\<close> the value
  of \<^verbatim>\<open>engine->getHour()\<close> during the frame, and \<open>camera_proj_view\<close> the product
  \<^verbatim>\<open>proj * view\<close>.
\<close>

record Renderer =
  gameData_textures :: "string \<rightharpoonup> TextureInfo"
  gameData_models :: "string \<rightharpoonup> ModelHandle"
  gameData_models_size :: nat
  gameData_realWater :: "nat \<Rightarrow> nat"
  gameData_visibleWater :: "nat \<Rightarrow> nat"
  gameData_waterHeights :: "nat \<Rightarrow> real"
  objectTypes :: "nat \<rightharpoonup> ObjectData"
  pedestrians :: "GameObject list"
  objectInstances :: "InstanceObject list"
  vehicleInstances :: "VehicleObject list"
  getHour :: int
  camera_worldPos :: vec3
  camera_frustum_planes :: "Plane list"
  camera_frustum_far :: real
  camera_proj_view :: mat4
  renderAlpha :: real
  glm_inverse :: "mat4 \<Rightarrow> mat4"
  ModuleMaterialColor :: "32 word"
  MTF_PrimaryColour :: "32 word"
  MTF_SecondaryColour :: "32 word"
  WATER_WORLD_SIZE :: real
  WATER_HQ_DATA_SIZE :: nat
  WATER_LQ_DATA_SIZE :: nat
  WATER_HQ_DISTANCE :: real
  NO_WATER_INDEX :: nat
  waterDraw_VAOName :: nat
  waterDraw_FaceType :: nat
  water_texName :: nat
  vao :: nat

datatype error = NullPointer | IndexOutOfRange

subsection \<open>Sequencing of fallible steps\<close>

fun foldM :: "('a \<Rightarrow> 's \<Rightarrow> error + 's) \<Rightarrow> 'a list \<Rightarrow> 's \<Rightarrow> error + 's" where
  "foldM f [] s = Inr s"
| "foldM f (x # xs) s = (case f x s of Inl e \<Rightarrow> Inl e | Inr s' \<Rightarrow> foldM f xs s')"

lemma foldM_cong [fundef_cong]:
  "xs = ys \<Longrightarrow> (\<And>x s. x \<in> set ys \<Longrightarrow> f x s = g x s) \<Longrightarrow> foldM f xs s = foldM g ys s"
  by (induction ys arbitrary: xs s) (auto split: sum.splits)

definition emit :: "gl_call list \<Rightarrow> RenderState \<Rightarrow> RenderState" where
  "emit cs s = s\<lparr>gl := gl s @ cs\<rparr>"

subsection \<open>The view frustum\<close>

text \<open>
  Modelled from the spec: \<^verbatim>\<open>ViewFrustum::intersects\<close> is declared in a header that
  is not part of the sources at hand. Section 4.1 gives its contract: the result is true
  iff the sphere is not entirely outside any frustum half-space, a sphere being outside a
  plane when its signed distance to the plane is below minus the radius.
\<close>

definition signed_distance :: "Plane \<Rightarrow> vec3 \<Rightarrow> real" where
  "signed_distance p c = vec3_dot (normal p) c + distance p"

definition outside_plane :: "Plane \<Rightarrow> vec3 \<Rightarrow> real \<Rightarrow> bool" where
  "outside_plane p c r = (signed_distance p c < - r)"

definition intersects :: "Plane list \<Rightarrow> vec3 \<Rightarrow> real \<Rightarrow> bool" where
  "intersects planes c r = list_all (\<lambda>p. \<not> outside_plane p c r) planes"

subsection \<open>renderSubgeometry (lines 596-647)\<close>

text \<open>Lines 607-616: the texture lookup. \<open>None\<close> is the early \<^verbatim>\<open>return false\<close>;
  otherwise the OpenGL calls made.\<close>

definition resolveTexture :: "Renderer \<Rightarrow> Material \<Rightarrow> bool \<Rightarrow> gl_call list option" where
  "resolveTexture R mat queueTransparent =
     (if length (textures mat) > 0 then
        (case gameData_textures R (textures mat ! 0) of
           Some tex \<Rightarrow>
             if transparent tex \<and> queueTransparent then None
             else Some [BindTexture (texName tex)]
         | None \<Rightarrow> Some [])
      else Some [])"

definition byte_colour :: "8 word \<times> 8 word \<times> 8 word \<times> 8 word \<Rightarrow> gl_call" where
  "byte_colour col =
     (case col of (r, g, b, a) \<Rightarrow>
        UniformCol (real (unat r) / 255) (real (unat g) / 255) (real (unat b) / 255) 1)"

definition vehicle_colour :: "vec3 \<Rightarrow> gl_call" where
  "vehicle_colour c = (case c of (r, g, b) \<Rightarrow> UniformCol r g b 1)"

text \<open>Lines 618-635: the colour selection.\<close>

definition selectColour :: "Renderer \<Rightarrow> Geometry \<Rightarrow> Material \<Rightarrow> GameObject option \<Rightarrow> gl_call list" where
  "selectColour R geom mat object =
     (if geom_flags geom AND ModuleMaterialColor R = ModuleMaterialColor R then
        (case object of
           Some ob \<Rightarrow>
             if obj_type ob = Vehicle then
               (if mat_flags mat AND MTF_PrimaryColour R \<noteq> 0 then [vehicle_colour (colourPrimary ob)]
                else if mat_flags mat AND MTF_SecondaryColour R \<noteq> 0 then [vehicle_colour (colourSecondary ob)]
                else [byte_colour (colour mat)])
             else [byte_colour (colour mat)]
         | None \<Rightarrow> [byte_colour (colour mat)])
      else [])"

text \<open>Lines 641-644: count the submission and issue the draw.\<close>

definition submitDraw :: "Geometry \<Rightarrow> SubGeometry \<Rightarrow> RenderState \<Rightarrow> RenderState" where
  "submitDraw geom sub s =
     emit [DrawElements (dbuff_FaceType geom) (numIndices sub) (4 * start sub)]
          (s\<lparr>rendered := rendered s + 1\<rparr>)"

definition renderSubgeometry ::
  "Renderer \<Rightarrow> Model \<Rightarrow> nat \<Rightarrow> nat \<Rightarrow> mat4 \<Rightarrow> GameObject option \<Rightarrow> bool \<Rightarrow> RenderState
     \<Rightarrow> error + (bool \<times> RenderState)" where
  "renderSubgeometry R model g sg matrix object queueTransparent s =
     (if g < length (geometries model) then
        (let geom = geometries model ! g;
             s1 = emit [BindVertexArray (dbuff_VAOName geom), BindBuffer (EBO geom)] s
         in if sg < length (subgeom geom) then
              (let sub = subgeom geom ! sg
               in if length (materials geom) > material sub then
                    (let mat = materials geom ! material sub
                     in case resolveTexture R mat queueTransparent of
                          None \<Rightarrow> Inr (False, s1)
                        | Some binds \<Rightarrow>
                            Inr (True,
                              submitDraw geom sub
                                (emit (binds @ selectColour R geom mat object
                                         @ [UniformMatDiffuse (diffuseIntensity mat),
                                            UniformMatAmbient (ambientIntensity mat)]) s1)))
                  else Inr (True, submitDraw geom sub s1))
            else Inl IndexOutOfRange)
      else Inl IndexOutOfRange)"

subsection \<open>renderGeometry (lines 545-559)\<close>

text \<open>
  Modelled from the spec: the default arguments of \<^verbatim>\<open>renderSubgeometry\<close>,
  \<^verbatim>\<open>renderGeometry\<close>, \<^verbatim>\<open>renderFrame\<close> and \<^verbatim>\<open>renderModel\<close>
  are declared in the header of the class, which is not part of the sources at hand. A call
  that leaves \<^verbatim>\<open>queueTransparent\<close> out is a call of the opaque pass of section 4.4,
  in which a rejected draw is queued (\<open>True\<close>; the replay at line 430 is the only call that
  passes \<^verbatim>\<open>false\<close>), and a call that leaves \<^verbatim>\<open>object\<close> out passes the null
  pointer (\<open>None\<close>, the "object == null" of section 4.4).
\<close>

definition renderGeometry_step ::
  "Renderer \<Rightarrow> Model \<Rightarrow> nat \<Rightarrow> mat4 \<Rightarrow> GameObject option \<Rightarrow> nat \<Rightarrow> RenderState \<Rightarrow> error + RenderState" where
  "renderGeometry_step R model g modelMatrix object sg s =
     (case renderSubgeometry R model g sg modelMatrix object True s of
        Inl e \<Rightarrow> Inl e
      | Inr (ok, s') \<Rightarrow>
          if \<not> ok then
            Inr (s'\<lparr>transparentDrawQueue := transparentDrawQueue s' @
                      [\<lparr>dc_model = model, dc_g = g, dc_sg = sg, dc_matrix = modelMatrix,
                        dc_object = object\<rparr>]\<rparr>)
          else Inr s')"

definition renderGeometry ::
  "Renderer \<Rightarrow> Model \<Rightarrow> nat \<Rightarrow> mat4 \<Rightarrow> GameObject option \<Rightarrow> RenderState \<Rightarrow> error + RenderState" where
  "renderGeometry R model g modelMatrix object s =
     (let s1 = emit [UniformModel modelMatrix, UniformCol 1 1 1 1] s
      in if g < length (geometries model) then
           foldM (renderGeometry_step R model g modelMatrix object)
                 [0 ..< length (subgeom (geometries model ! g))] s1
         else Inl IndexOutOfRange)"

subsection \<open>renderFrame (lines 561-594)\<close>

text \<open>Lines 563-570: the matrix handed to the draws and to the children.\<close>

definition frame_localmatrix :: "Renderer \<Rightarrow> ModelFrame \<Rightarrow> mat4 \<Rightarrow> GameObject option \<Rightarrow> mat4" where
  "frame_localmatrix R f matrix object =
     (case object of
        Some ob \<Rightarrow>
          (case animator ob of
             Some anim \<Rightarrow> mat4_mul matrix (anim f (renderAlpha R) (isAnimationFixed ob))
           | None \<Rightarrow> mat4_mul matrix (getTransform f))
      | None \<Rightarrow> mat4_mul matrix (getTransform f))"

text \<open>Line 572.\<close>

definition frame_vis :: "ModelFrame \<Rightarrow> GameObject option \<Rightarrow> bool" where
  "frame_vis f object = (case object of None \<Rightarrow> True | Some ob \<Rightarrow> isFrameVisible ob f)"

text \<open>Lines 574-587: the body of the loop over the frame's geometries.\<close>

definition renderFrame_geometry ::
  "Renderer \<Rightarrow> Model \<Rightarrow> mat4 \<Rightarrow> mat4 \<Rightarrow> GameObject option \<Rightarrow> bool \<Rightarrow> nat \<Rightarrow> RenderState
     \<Rightarrow> error + RenderState" where
  "renderFrame_geometry R m matrix localmatrix object vis g s =
     (if \<not> vis then Inr s
      else if g < length (geometries m) then
        (let bounds = geometryBounds (geometries m ! g)
         in if \<not> intersects (camera_frustum_planes R)
                   (vec3_add (center bounds) (mat4_col3 matrix)) (radius bounds)
            then Inr s
            else
              renderGeometry R m g localmatrix object
                (if geom_flags (geometries m ! g) AND ModuleMaterialColor R \<noteq> ModuleMaterialColor R
                 then emit [UniformCol 1 1 1 1] s else s))
      else Inl IndexOutOfRange)"

definition discard_result :: "error + (bool \<times> RenderState) \<Rightarrow> error + RenderState" where
  "discard_result r = (case r of Inl e \<Rightarrow> Inl e | Inr (b, s) \<Rightarrow> Inr s)"

fun renderFrame ::
  "Renderer \<Rightarrow> Model \<Rightarrow> ModelFrame \<Rightarrow> mat4 \<Rightarrow> GameObject option \<Rightarrow> bool \<Rightarrow> RenderState
     \<Rightarrow> error + (bool \<times> RenderState)" where
  "renderFrame R m (ModelFrame nm tf gs cs) matrix object queueTransparent s =
     (let f = ModelFrame nm tf gs cs;
          localmatrix = frame_localmatrix R f matrix object;
          vis = frame_vis f object
      in case foldM (renderFrame_geometry R m matrix localmatrix object vis) gs s of
           Inl e \<Rightarrow> Inl e
         | Inr s1 \<Rightarrow>
             (case foldM (\<lambda>c s'. discard_result (renderFrame R m c localmatrix object queueTransparent s'))
                         cs s1 of
                Inl e \<Rightarrow> Inl e
              | Inr s2 \<Rightarrow> Inr (True, s2)))"

text \<open>Lines 649-652.\<close>

definition renderModel ::
  "Renderer \<Rightarrow> Model \<Rightarrow> mat4 \<Rightarrow> GameObject option \<Rightarrow> RenderState \<Rightarrow> error + RenderState" where
  "renderModel R model modelMatrix object s =
     (if rootFrameIdx model < length (frames model) then
        discard_result (renderFrame R model (frames model ! rootFrameIdx model) modelMatrix object True s)
      else Inl IndexOutOfRange)"

subsection \<open>renderWheel (lines 521-543)\<close>

definition renderWheel_geometry ::
  "Renderer \<Rightarrow> Model \<Rightarrow> mat4 \<Rightarrow> nat \<Rightarrow> RenderState \<Rightarrow> error + RenderState" where
  "renderWheel_geometry R model matrix g s =
     (if g < length (geometries model) then
        (let bounds = geometryBounds (geometries model ! g)
         in if \<not> intersects (camera_frustum_planes R)
                   (vec3_add (center bounds) (mat4_col3 matrix)) (radius bounds)
            then Inr (s\<lparr>culled := culled s + 1\<rparr>)
            else renderGeometry R model g matrix None s)
      else Inl IndexOutOfRange)"

fun renderWheel_frames ::
  "Renderer \<Rightarrow> Model \<Rightarrow> mat4 \<Rightarrow> string \<Rightarrow> ModelFrame list \<Rightarrow> RenderState \<Rightarrow> error + RenderState" where
  "renderWheel_frames R model matrix nm [] s = Inr s"
| "renderWheel_frames R model matrix nm (f # fs) s =
     (if getName f \<noteq> nm then renderWheel_frames R model matrix nm fs s
      else
        (case getChildren f of
           [] \<Rightarrow> Inl IndexOutOfRange
         | firstLod # others \<Rightarrow>
             foldM (renderWheel_geometry R model matrix) (getGeometries firstLod) s))"

definition renderWheel ::
  "Renderer \<Rightarrow> Model \<Rightarrow> mat4 \<Rightarrow> string \<Rightarrow> RenderState \<Rightarrow> error + RenderState" where
  "renderWheel R model matrix nm s = renderWheel_frames R model matrix nm (frames model) s"

subsection \<open>renderWorld (lines 252-519)\<close>

text \<open>Lines 300-311: the body of the loop over the pedestrians.\<close>

definition renderPedestrian :: "Renderer \<Rightarrow> GameObject \<Rightarrow> RenderState \<Rightarrow> error + RenderState" where
  "renderPedestrian R charac s =
     (let matrixModel = mat4_mul (glm_translate mat4_identity (obj_position charac))
                                 (mat4_cast (obj_rotation charac))
      in case obj_model charac of
           None \<Rightarrow> Inl NullPointer
         | Some handle \<Rightarrow>
             (case handle of
                None \<Rightarrow> Inr s
              | Some mdl \<Rightarrow> renderModel R mdl matrixModel (Some charac) s))"

text \<open>Lines 329-337.\<close>

definition instance_matrixModel :: "InstanceObject \<Rightarrow> mat4" where
  "instance_matrixModel inst =
     (case inst_body inst of
        Some worldTransform \<Rightarrow> worldTransform
      | None \<Rightarrow>
          mat4_mul (glm_scale (glm_translate mat4_identity (inst_position inst)) (inst_scale inst))
                   (mat4_cast (inst_rotation inst)))"

text \<open>Lines 339-344.\<close>

definition instance_mindist :: "Renderer \<Rightarrow> Model \<Rightarrow> mat4 \<Rightarrow> real" where
  "instance_mindist R mdl matrixModel =
     fold (\<lambda>geom mindist.
             min mindist
               (vec3_length (vec3_sub (vec3_add (mat4_col3 matrixModel) (center (geometryBounds geom)))
                                      (camera_worldPos R))
                - radius (geometryBounds geom)))
          (geometries mdl) 100000"

text \<open>
  Lines 370-373 and 377-380 with \<open>k = 2\<close> and \<open>k = 1\<close>: the child
  \<^verbatim>\<open>size() - k\<close> of \<^verbatim>\<open>frames[0]\<close>. The subtraction is on
  \<^verbatim>\<open>size_t\<close>: with fewer than \<open>k\<close> children it wraps around to an index that is
  out of range.
\<close>

definition renderLODChild ::
  "Renderer \<Rightarrow> Model \<Rightarrow> mat4 \<Rightarrow> nat \<Rightarrow> RenderState \<Rightarrow> error + RenderState" where
  "renderLODChild R mdl matrixModel k s =
     (case frames mdl of
        [] \<Rightarrow> Inl IndexOutOfRange
      | RF # others \<Rightarrow>
          if k \<le> length (getChildren RF) then
            (let LODindex = length (getChildren RF) - k;
                 f = getChildren RF ! LODindex
             in discard_result
                  (renderFrame R mdl f (mat4_mul matrixModel (glm_inverse R (getTransform f)))
                     None True s))
          else Inl IndexOutOfRange)"

text \<open>Lines 313-383: the body of the loop over the object instances.\<close>

definition renderInstance :: "Renderer \<Rightarrow> InstanceObject \<Rightarrow> RenderState \<Rightarrow> error + RenderState" where
  "renderInstance R inst s =
     (if timeOn (inst_object inst) \<noteq> timeOff (inst_object inst)
         \<and> (getHour R < timeOn (inst_object inst) \<and> getHour R > timeOff (inst_object inst))
      then Inr s
      else
        (case inst_model inst of
           None \<Rightarrow> Inl NullPointer
         | Some handle \<Rightarrow>
             (case handle of
                None \<Rightarrow> Inr s
              | Some mdl \<Rightarrow>
                  (let matrixModel = instance_matrixModel inst;
                       mindist = instance_mindist R mdl matrixModel
                   in if numClumps (inst_object inst) = 1 then
                        (if mindist > drawDistance (inst_object inst) 0 then
                           (case LODinstance inst of
                              Some lod \<Rightarrow>
                                if mindist > drawDistance (inst_object lod) 0 then
                                  Inr (s\<lparr>culled := culled s + 1\<rparr>)
                                else
                                  (case inst_model lod of
                                     None \<Rightarrow> Inl NullPointer
                                   | Some lodHandle \<Rightarrow>
                                       (case lodHandle of
                                          Some lodModel \<Rightarrow> renderModel R lodModel matrixModel None s
                                        | None \<Rightarrow> Inr s))
                            | None \<Rightarrow> Inr s)
                         else if \<not> LOD (inst_object inst) then renderModel R mdl matrixModel None s
                         else Inr s)
                      else
                        (if mindist > drawDistance (inst_object inst) 1 then
                           Inr (s\<lparr>culled := culled s + 1\<rparr>)
                         else if mindist > drawDistance (inst_object inst) 0 then
                           renderLODChild R mdl matrixModel 2 s
                         else renderLODChild R mdl matrixModel 1 s)))))"

text \<open>Lines 400-419: the body of the loop over the wheels of a vehicle.\<close>

definition renderVehicleWheel ::
  "Renderer \<Rightarrow> VehicleObject \<Rightarrow> nat \<Rightarrow> RenderState \<Rightarrow> error + RenderState" where
  "renderVehicleWheel R inst w s =
     (case objectTypes R (wheelModelID inst) of
        None \<Rightarrow> Inr s
      | Some woi \<Rightarrow>
          (case gameData_models R ''wheels'' of
             None \<Rightarrow> Inl NullPointer
           | Some handle \<Rightarrow>
               (case handle of
                  Some wheelModel \<Rightarrow>
                    if w < length (physVehicle inst) then
                      (let wheel_tf0 = glm_scale (wheelTransformWS (physVehicle inst ! w))
                                         (wheelScale inst, wheelScale inst, wheelScale inst);
                           wheel_tf =
                             (if chassisConnectionPointCS_x (physVehicle inst ! w) < 0
                              then glm_scale wheel_tf0 (- 1, 1, 1) else wheel_tf0)
                       in renderWheel R wheelModel wheel_tf (modelName woi) s)
                    else Inl IndexOutOfRange
                | None \<Rightarrow> Inr (s\<lparr>cout := cout s @ [WheelModelNotLoaded (modelName woi)]\<rparr>))))"

text \<open>
  Lines 385-420: the body of the loop over the vehicles. The test at line 388 guards only
  the message: line 397 dereferences \<^verbatim>\<open>inst->model\<close> whatever its outcome, and
  \<^verbatim>\<open>renderModel\<close> dereferences the \<^verbatim>\<open>Model*\<close> it is given.
\<close>

definition renderVehicle :: "Renderer \<Rightarrow> VehicleObject \<Rightarrow> RenderState \<Rightarrow> error + RenderState" where
  "renderVehicle R inst s =
     (let s1 = (if obj_model (veh_object inst) = None
                then s\<lparr>cout := cout s @ [ModelNotLoaded (veh_modelName inst) (gameData_models_size R)]\<rparr>
                else s);
          matrixModel = mat4_mul (glm_translate mat4_identity (obj_position (veh_object inst)))
                                 (mat4_cast (obj_rotation (veh_object inst)))
      in case obj_model (veh_object inst) of
           None \<Rightarrow> Inl NullPointer
         | Some handle \<Rightarrow>
             (case handle of
                None \<Rightarrow> Inl NullPointer
              | Some mdl \<Rightarrow>
                  (case renderModel R mdl matrixModel (Some (veh_object inst)) s1 of
                     Inl e \<Rightarrow> Inl e
                   | Inr s2 \<Rightarrow> foldM (renderVehicleWheel R inst) [0 ..< info_wheels inst] s2)))"

text \<open>Lines 422-432: the replay of the queue, and its clearing.\<close>

definition replayDrawCall :: "Renderer \<Rightarrow> DrawCall \<Rightarrow> RenderState \<Rightarrow> error + RenderState" where
  "replayDrawCall R it s =
     discard_result
       (renderSubgeometry R (dc_model it) (dc_g it) (dc_sg it) (dc_matrix it) (dc_object it) False
          (emit [UniformModel (dc_matrix it), UniformCol 1 1 1 1] s))"

definition flushTransparentDrawQueue :: "Renderer \<Rightarrow> RenderState \<Rightarrow> error + RenderState" where
  "flushTransparentDrawQueue R s =
     (case foldM (replayDrawCall R) (transparentDrawQueue s) s of
        Inl e \<Rightarrow> Inl e
      | Inr s' \<Rightarrow> Inr (s'\<lparr>transparentDrawQueue := []\<rparr>))"

text \<open>
  Lines 434-498: the water. \<^verbatim>\<open>realWater\<close>, \<^verbatim>\<open>visibleWater\<close> and
  \<^verbatim>\<open>waterHeights\<close> are arrays of \<^verbatim>\<open>GameData\<close>, declared outside this file;
  they are read as tables over the index.
\<close>

definition blockLQSize :: "Renderer \<Rightarrow> real" where
  "blockLQSize R = WATER_WORLD_SIZE R / real (WATER_LQ_DATA_SIZE R)"

definition blockHQSize :: "Renderer \<Rightarrow> real" where
  "blockHQSize R = WATER_WORLD_SIZE R / real (WATER_HQ_DATA_SIZE R)"

definition waterWS :: "Renderer \<Rightarrow> real \<Rightarrow> nat \<times> nat \<Rightarrow> vec2" where
  "waterWS R blockSize t =
     (case t of (x, y) \<Rightarrow>
        (- WATER_WORLD_SIZE R / 2 + blockSize * real x, - WATER_WORLD_SIZE R / 2 + blockSize * real y))"

definition cullWS :: "Renderer \<Rightarrow> real \<Rightarrow> nat \<times> nat \<Rightarrow> vec2" where
  "cullWS R blockSize t = (case waterWS R blockSize t of (wx, wy) \<Rightarrow> (wx + blockSize / 2, wy + blockSize / 2))"

definition camposFlat :: "Renderer \<Rightarrow> vec2" where
  "camposFlat R = (case camera_worldPos R of (cx, cy, cz) \<Rightarrow> (cx, cy))"

definition drawWaterTile :: "Renderer \<Rightarrow> real \<Rightarrow> nat \<times> nat \<Rightarrow> nat \<Rightarrow> RenderState \<Rightarrow> RenderState" where
  "drawWaterTile R blockSize t hI s =
     (case waterWS R blockSize t of (wx, wy) \<Rightarrow>
        emit [UniformWaterHeight (gameData_waterHeights R hI),
              UniformWaterMVP (mat4_mul (camera_proj_view R) (glm_translate mat4_identity (wx, wy, 0))),
              DrawArrays (waterDraw_FaceType R) 0 4] s)"

text \<open>Lines 456-472: the conditions under which a tile of the high-detail grid is drawn.\<close>

definition drawsHQ :: "Renderer \<Rightarrow> nat \<times> nat \<Rightarrow> bool" where
  "drawsHQ R t =
     (case t of (x, y) \<Rightarrow>
        \<not> (vec2_distance (camposFlat R) (cullWS R (blockHQSize R) t) - blockHQSize R \<ge> WATER_HQ_DISTANCE R)
        \<and> \<not> (gameData_realWater R (x * WATER_HQ_DATA_SIZE R + y) \<ge> NO_WATER_INDEX R))"

definition waterHQ_tile :: "Renderer \<Rightarrow> nat \<times> nat \<Rightarrow> RenderState \<Rightarrow> RenderState" where
  "waterHQ_tile R t s =
     (case t of (x, y) \<Rightarrow>
        if drawsHQ R t
        then drawWaterTile R (blockHQSize R) t (gameData_realWater R (x * WATER_HQ_DATA_SIZE R + y)) s
        else s)"

text \<open>Lines 479-496: the same for the low-detail grid.\<close>

definition drawsLQ :: "Renderer \<Rightarrow> nat \<times> nat \<Rightarrow> bool" where
  "drawsLQ R t =
     (case t of (x, y) \<Rightarrow>
        \<not> (vec2_distance (camposFlat R) (cullWS R (blockLQSize R) t) - blockHQSize R / 4 < WATER_HQ_DISTANCE R)
        \<and> \<not> (vec2_distance (camposFlat R) (cullWS R (blockLQSize R) t) - blockLQSize R / 2
               > camera_frustum_far R)
        \<and> \<not> (gameData_visibleWater R (x * WATER_LQ_DATA_SIZE R + y) \<ge> NO_WATER_INDEX R))"

definition waterLQ_tile :: "Renderer \<Rightarrow> nat \<times> nat \<Rightarrow> RenderState \<Rightarrow> RenderState" where
  "waterLQ_tile R t s =
     (case t of (x, y) \<Rightarrow>
        if drawsLQ R t
        then drawWaterTile R (blockLQSize R) t (gameData_visibleWater R (x * WATER_LQ_DATA_SIZE R + y)) s
        else s)"

definition grid :: "nat \<Rightarrow> (nat \<times> nat) list" where
  "grid n = List.product [0 ..< n] [0 ..< n]"

definition renderWater :: "Renderer \<Rightarrow> RenderState \<Rightarrow> RenderState" where
  "renderWater R s =
     (let s1 = emit [BindVertexArray (waterDraw_VAOName R), UseWaterProgram,
                     BindTexture (water_texName R), UniformWaterSize (blockHQSize R)] s;
          s2 = fold (waterHQ_tile R) (grid (WATER_HQ_DATA_SIZE R)) s1;
          s3 = emit [UniformWaterSize (blockLQSize R)] s2
      in fold (waterLQ_tile R) (grid (WATER_LQ_DATA_SIZE R)) s3)"

text \<open>
  The frame. The uniforms of lighting, fog and sky (lines 258-296, 508-511) come from
  the weather collaborator and are not recorded in the trace; \<open>camera_frustum_planes\<close>
  and \<open>camera_frustum_far\<close> are the frustum after the update of line 296.
\<close>

definition renderWorld :: "Renderer \<Rightarrow> real \<Rightarrow> RenderState \<Rightarrow> error + RenderState" where
  "renderWorld R0 alpha s0 =
     (let R = R0\<lparr>renderAlpha := alpha\<rparr>;
          s = (emit [BindVertexArray (vao R), UseWorldProgram, ClearFrame] s0)\<lparr>rendered := 0, culled := 0\<rparr>
      in case foldM (renderPedestrian R) (pedestrians R) s of
           Inl e \<Rightarrow> Inl e
         | Inr s1 \<Rightarrow>
             (case foldM (renderInstance R) (objectInstances R) s1 of
                Inl e \<Rightarrow> Inl e
              | Inr s2 \<Rightarrow>
                  (case foldM (renderVehicle R) (vehicleInstances R) s2 of
                     Inl e \<Rightarrow> Inl e
                   | Inr s3 \<Rightarrow>
                       (case flushTransparentDrawQueue R s3 of
                          Inl e \<Rightarrow> Inl e
                        | Inr s4 \<Rightarrow>
                            Inr (emit [BindVertexArray (vao R), UseSkyProgram, DrawSkydome (8 * 10 * 6),
                                       BindVertexArray 0]
                                   (renderWater R s4))))))"

subsection \<open>Notions used to state the properties\<close>

text \<open>The OpenGL calls made between two states.\<close>

definition emitted :: "RenderState \<Rightarrow> RenderState \<Rightarrow> gl_call list" where
  "emitted s s' = drop (length (gl s)) (gl s')"

fun is_draw :: "gl_call \<Rightarrow> bool" where
  "is_draw (DrawElements a b c) = True"
| "is_draw other = False"

text \<open>A frame tree whose geometry indices all lie inside \<^verbatim>\<open>m->geometries\<close>.\<close>

fun frame_ok :: "Model \<Rightarrow> ModelFrame \<Rightarrow> bool" where
  "frame_ok m (ModelFrame nm tf gs cs) =
     (list_all (\<lambda>g. g < length (geometries m)) gs \<and> list_all (frame_ok m) cs)"

text \<open>The subgeometries that \<^const>\<open>renderSubgeometry\<close> rejects in the opaque pass.\<close>

definition defers :: "Renderer \<Rightarrow> Model \<Rightarrow> nat \<Rightarrow> nat \<Rightarrow> bool" where
  "defers R model g sg =
     (material (subgeom (geometries model ! g) ! sg) < length (materials (geometries model ! g))
      \<and> resolveTexture R
            (materials (geometries model ! g) ! material (subgeom (geometries model ! g) ! sg)) True
          = None)"

text \<open>The entry pushed at lines 554-556.\<close>

definition queued :: "Model \<Rightarrow> nat \<Rightarrow> mat4 \<Rightarrow> GameObject option \<Rightarrow> nat \<Rightarrow> DrawCall" where
  "queued model g modelMatrix object sg =
     \<lparr>dc_model = model, dc_g = g, dc_sg = sg, dc_matrix = modelMatrix, dc_object = object\<rparr>"

definition drawCall_ok :: "DrawCall \<Rightarrow> bool" where
  "drawCall_ok it =
     (dc_g it < length (geometries (dc_model it))
      \<and> dc_sg it < length (subgeom (geometries (dc_model it) ! dc_g it)))"

text \<open>The OpenGL calls of the replay of one queue entry, in order.\<close>

definition replay_trace :: "Renderer \<Rightarrow> DrawCall \<Rightarrow> gl_call list" where
  "replay_trace R it =
     (let geom = geometries (dc_model it) ! dc_g it;
          sub = subgeom geom ! dc_sg it
      in [UniformModel (dc_matrix it), UniformCol 1 1 1 1,
          BindVertexArray (dbuff_VAOName geom), BindBuffer (EBO geom)]
         @ (if material sub < length (materials geom) then
              (case resolveTexture R (materials geom ! material sub) False of
                 Some binds \<Rightarrow> binds | None \<Rightarrow> [])
              @ selectColour R geom (materials geom ! material sub) (dc_object it)
              @ [UniformMatDiffuse (diffuseIntensity (materials geom ! material sub)),
                 UniformMatAmbient (ambientIntensity (materials geom ! material sub))]
            else [])
         @ [DrawElements (dbuff_FaceType geom) (numIndices sub) (4 * start sub)])"

text \<open>A call of \<^verbatim>\<open>renderSubgeometry\<close> binds the element buffer once, and nothing else binds
  one: the bindings in a trace count the submissions attempted.\<close>

fun is_attempt :: "gl_call \<Rightarrow> bool" where
  "is_attempt (BindBuffer b) = True"
| "is_attempt other = False"

text \<open>Draws issued plus entries waiting in the queue, minus submissions attempted.\<close>

definition balance :: "RenderState \<Rightarrow> int" where
  "balance s = int (length (filter is_draw (gl s))) + int (length (transparentDrawQueue s))
               - int (length (filter is_attempt (gl s)))"

text \<open>
  What a step of the opaque pass may do to the queue and to the trace: the queue is only
  extended at its end, and every submission attempted since has either issued its draw or
  left one entry in the queue.
\<close>

definition opaque_step :: "RenderState \<Rightarrow> RenderState \<Rightarrow> bool" where
  "opaque_step s s' =
     (prefix (transparentDrawQueue s) (transparentDrawQueue s') \<and> balance s' = balance s)"

text \<open>The state at line 298, before the first loop of \<^verbatim>\<open>renderWorld\<close>.\<close>

definition frame_start :: "Renderer \<Rightarrow> RenderState \<Rightarrow> RenderState" where
  "frame_start R s0 =
     (emit [BindVertexArray (vao R), UseWorldProgram, ClearFrame] s0)\<lparr>rendered := 0, culled := 0\<rparr>"

text \<open>A state after the replay of every entry of its queue, in queue order, and the clearing
  of the queue.\<close>

definition flushed :: "Renderer \<Rightarrow> RenderState \<Rightarrow> RenderState" where
  "flushed R s = s\<lparr>rendered := rendered s + length (transparentDrawQueue s),
                   gl := gl s @ concat (map (replay_trace R) (transparentDrawQueue s)),
                   transparentDrawQueue := []\<rparr>"

text \<open>A chunk that the test of line 577 rejects.\<close>

definition chunk_culled :: "Renderer \<Rightarrow> Model \<Rightarrow> mat4 \<Rightarrow> nat \<Rightarrow> bool" where
  "chunk_culled R m matrix g =
     (g < length (geometries m)
      \<and> \<not> intersects (camera_frustum_planes R)
            (vec3_add (center (geometryBounds (geometries m ! g))) (mat4_col3 matrix))
            (radius (geometryBounds (geometries m ! g))))"

text \<open>The OpenGL calls of one water tile (lines 469-472 and 493-496).\<close>

definition waterTile_calls :: "Renderer \<Rightarrow> real \<Rightarrow> (nat \<Rightarrow> nat) \<Rightarrow> nat \<Rightarrow> nat \<times> nat \<Rightarrow> gl_call list" where
  "waterTile_calls R blockSize table n t =
     (case t of (x, y) \<Rightarrow> case waterWS R blockSize t of (wx, wy) \<Rightarrow>
        [UniformWaterHeight (gameData_waterHeights R (table (x * n + y))),
         UniformWaterMVP (mat4_mul (camera_proj_view R) (glm_translate mat4_identity (wx, wy, 0))),
         DrawArrays (waterDraw_FaceType R) 0 4])"

subsection \<open>A small scene\<close>

definition ex_textures :: "string \<rightharpoonup> TextureInfo" where
  "ex_textures = [''brick'' \<mapsto> \<lparr>texName = 5, transparent = False\<rparr>,
                  ''glass'' \<mapsto> \<lparr>texName = 7, transparent = True\<rparr>]"

definition ex_brick :: Material where
  "ex_brick = \<lparr>textures = [''brick''], colour = (255, 255, 255, 255), mat_flags = 0,
               diffuseIntensity = 1, ambientIntensity = 1\<rparr>"

definition ex_glass :: Material where
  "ex_glass = \<lparr>textures = [''glass''], colour = (255, 0, 0, 255), mat_flags = 0,
               diffuseIntensity = 1, ambientIntensity = 1\<rparr>"

definition ex_lost :: Material where
  "ex_lost = \<lparr>textures = [''lost''], colour = (255, 255, 255, 255), mat_flags = 0,
              diffuseIntensity = 1, ambientIntensity = 1\<rparr>"

text \<open>A chunk with per-material colour: a brick part, a red glass part, a part whose
  texture is not in the cache and a part whose material index is out of range.\<close>

definition ex_body :: Geometry where
  "ex_body = \<lparr>geometryBounds = \<lparr>center = (0, 0, 0), radius = 1\<rparr>,
              subgeom = [\<lparr>start = 0, numIndices = 3, material = 0\<rparr>,
                         \<lparr>start = 3, numIndices = 6, material = 1\<rparr>,
                         \<lparr>start = 9, numIndices = 3, material = 2\<rparr>,
                         \<lparr>start = 12, numIndices = 3, material = 7\<rparr>],
              materials = [ex_brick, ex_glass, ex_lost],
              geom_flags = 64, dbuff_VAOName = 1, dbuff_FaceType = 4, EBO = 2\<rparr>"

definition ex_lowpoly :: Geometry where
  "ex_lowpoly = \<lparr>geometryBounds = \<lparr>center = (0, 0, 0), radius = 1\<rparr>,
                 subgeom = [\<lparr>start = 0, numIndices = 3, material = 0\<rparr>],
                 materials = [ex_brick],
                 geom_flags = 0, dbuff_VAOName = 3, dbuff_FaceType = 4, EBO = 4\<rparr>"

definition ex_near :: ModelFrame where
  "ex_near = ModelFrame ''near'' mat4_identity [0] []"

definition ex_far :: ModelFrame where
  "ex_far = ModelFrame ''far'' mat4_identity [1] []"

definition ex_root :: ModelFrame where
  "ex_root = ModelFrame ''root'' mat4_identity [1] [ex_far, ex_near]"

text \<open>A frame that sits 200 units away from its parent.\<close>

definition ex_arm :: ModelFrame where
  "ex_arm = ModelFrame ''arm'' (glm_translate mat4_identity (200, 0, 0)) [1] []"

text \<open>A model whose root frame, without geometry, carries the frame \<open>arm\<close>.\<close>

definition ex_crane :: Model where
  "ex_crane = \<lparr>frames = [ModelFrame ''base'' mat4_identity [] [ex_arm]],
               geometries = [ex_body, ex_lowpoly], rootFrameIdx = 0\<rparr>"

definition ex_model :: Model where
  "ex_model = \<lparr>frames = [ex_root], geometries = [ex_body, ex_lowpoly], rootFrameIdx = 0\<rparr>"

text \<open>The frustum is the cube of half-width 100 around the origin.\<close>

definition ex_planes :: "Plane list" where
  "ex_planes = [\<lparr>normal = (1, 0, 0), distance = 100\<rparr>, \<lparr>normal = (- 1, 0, 0), distance = 100\<rparr>,
                \<lparr>normal = (0, 1, 0), distance = 100\<rparr>, \<lparr>normal = (0, - 1, 0), distance = 100\<rparr>,
                \<lparr>normal = (0, 0, 1), distance = 100\<rparr>, \<lparr>normal = (0, 0, - 1), distance = 100\<rparr>]"

definition ex_R :: Renderer where
  "ex_R = \<lparr>gameData_textures = ex_textures,
           gameData_models = Map.empty,
           gameData_models_size = 0,
           gameData_realWater = (\<lambda>i. 0),
           gameData_visibleWater = (\<lambda>i. 0),
           gameData_waterHeights = (\<lambda>i. 0),
           objectTypes = Map.empty,
           pedestrians = [],
           objectInstances = [],
           vehicleInstances = [],
           getHour = 12,
           camera_worldPos = (0, 0, 0),
           camera_frustum_planes = ex_planes,
           camera_frustum_far = 100,
           camera_proj_view = mat4_identity,
           renderAlpha = 0,
           glm_inverse = (\<lambda>m. m),
           ModuleMaterialColor = 64,
           MTF_PrimaryColour = 1,
           MTF_SecondaryColour = 2,
           WATER_WORLD_SIZE = 8,
           WATER_HQ_DATA_SIZE = 4,
           WATER_LQ_DATA_SIZE = 2,
           WATER_HQ_DISTANCE = 1 / 2,
           NO_WATER_INDEX = 48,
           waterDraw_VAOName = 9,
           waterDraw_FaceType = 5,
           water_texName = 8,
           vao = 10\<rparr>"

definition ex_state0 :: RenderState where
  "ex_state0 = \<lparr>rendered = 0, culled = 0, transparentDrawQueue = [], gl = [], cout = []\<rparr>"

text \<open>Object data with draw distances \<open>d0\<close> and 50, and instances of it on the x axis.\<close>

definition ex_objdata :: "nat \<Rightarrow> bool \<Rightarrow> real \<Rightarrow> int \<Rightarrow> int \<Rightarrow> ObjectData" where
  "ex_objdata clumps isLOD d0 on off =
     \<lparr>numClumps = clumps, drawDistance = (\<lambda>i. if i = 0 then d0 else 50), LOD = isLOD,
      timeOn = on, timeOff = off, modelName = ''tower''\<rparr>"

definition ex_instance ::
  "ObjectData \<Rightarrow> ModelHandle option \<Rightarrow> real \<Rightarrow> InstanceObject option \<Rightarrow> InstanceObject" where
  "ex_instance dat handle x lod =
     InstanceObject dat handle None (x, 0, 0) (1, 1, 1) (1, 0, 0, 0) lod"

definition ex_tower :: InstanceObject where
  "ex_tower = ex_instance (ex_objdata 2 False 20 0 0) (Some (Some ex_model)) 30 None"

definition ex_lamp_lod :: InstanceObject where
  "ex_lamp_lod = ex_instance (ex_objdata 1 True 100 0 0) (Some (Some ex_model)) 30 None"

definition ex_lamp :: InstanceObject where
  "ex_lamp = ex_instance (ex_objdata 1 False 20 0 0) (Some (Some ex_model)) 30 (Some ex_lamp_lod)"

definition ex_post :: InstanceObject where
  "ex_post = ex_instance (ex_objdata 1 False 20 0 0) (Some (Some ex_model)) 30 None"

definition ex_stub :: InstanceObject where
  "ex_stub = ex_instance (ex_objdata 1 True 20 0 0) (Some (Some ex_model)) 10 None"

text \<open>An instance that is switched on at 6 and off at 20, and one whose model is not loaded.\<close>

definition ex_shop :: InstanceObject where
  "ex_shop = ex_instance (ex_objdata 1 False 20 6 20) (Some (Some ex_model)) 10 None"

definition ex_stub_near :: InstanceObject where
  "ex_stub_near = ex_instance (ex_objdata 1 False 20 0 0) (Some (Some ex_model)) 10 None"

definition ex_unloaded :: InstanceObject where
  "ex_unloaded = ex_instance (ex_objdata 1 False 20 0 0) (Some None) 10 None"

text \<open>A game object that hides its frame \<open>root\<close>, with a given type and model handle.\<close>

definition ex_object :: "ObjectType \<Rightarrow> ModelHandle option \<Rightarrow> GameObject" where
  "ex_object ty handle =
     \<lparr>obj_type = ty, obj_position = (0, 0, 0), obj_rotation = (1, 0, 0, 0), obj_model = handle,
      animator = None, isAnimationFixed = False, isFrameVisible = (\<lambda>f. getName f \<noteq> ''root''),
      colourPrimary = (0, 0, 1), colourSecondary = (0, 1, 0)\<rparr>"

definition ex_vehicle :: "ModelHandle option \<Rightarrow> VehicleObject" where
  "ex_vehicle handle =
     \<lparr>veh_object = ex_object Vehicle handle, wheelModelID = 0, wheelScale = 1,
      veh_modelName = ''car'', info_wheels = 0, physVehicle = []\<rparr>"

text \<open>A world of one instance, 10 units from the camera, over a map without water.\<close>

definition ex_scene :: Renderer where
  "ex_scene = ex_R\<lparr>objectInstances := [ex_stub_near],
                   gameData_realWater := (\<lambda>i. 48), gameData_visibleWater := (\<lambda>i. 48)\<rparr>"

text \<open>The state after the opaque pass has rejected the glass part of \<open>ex_body\<close>.\<close>

definition ex_queued :: RenderState where
  "ex_queued = ex_state0\<lparr>transparentDrawQueue := [queued ex_model 0 mat4_identity None 1]\<rparr>"

section \<open>Properties\<close>

lemmas ex_defs = ex_textures_def ex_brick_def ex_glass_def ex_lost_def ex_body_def ex_lowpoly_def
  ex_near_def ex_far_def ex_root_def ex_arm_def ex_model_def ex_planes_def ex_R_def ex_state0_def
  ex_objdata_def ex_instance_def ex_object_def ex_vehicle_def ex_tower_def ex_lamp_lod_def
  ex_lamp_def ex_post_def ex_stub_def ex_shop_def ex_unloaded_def ex_queued_def ex_crane_def
  ex_stub_near_def ex_scene_def

lemmas glm_defs = vec3_add_def vec3_sub_def vec3_dot_def vec4_add_def vec4_scale_def
  mat4_identity_def mat4_mul_vec4_def mat4_mul_def mat4_col3_def glm_translate_def glm_scale_def
  mat4_cast_def

lemmas render_defs = renderSubgeometry_def resolveTexture_def selectColour_def byte_colour_def
  vehicle_colour_def submitDraw_def emit_def renderGeometry_step_def renderGeometry_def
  frame_localmatrix_def frame_vis_def renderFrame_geometry_def discard_result_def renderModel_def
  intersects_def outside_plane_def signed_distance_def

lemma vec3_length_x_axis [simp]: "vec3_length (x, 0, 0) = \<bar>x\<bar>"
  by (simp add: vec3_length_def vec3_dot_def)

lemma vec2_distance_same_x [simp]: "vec2_distance (a, b) (a, c) = \<bar>b - c\<bar>"
  by (simp add: vec2_distance_def)

lemma vec2_distance_same_y [simp]: "vec2_distance (a, b) (c, b) = \<bar>a - c\<bar>"
  by (simp add: vec2_distance_def)

lemma emitted_emit [simp]: "emitted s (emit cs s) = cs"
  by (simp add: emitted_def emit_def)

lemma emit_emit: "emit bs (emit as s) = emit (as @ bs) s"
  by (simp add: emit_def)

lemma emit_Nil [simp]: "emit [] s = s"
  by (simp add: emit_def)

subsection \<open>Submitting one subgeometry\<close>

lemma selectColour_no_bind: "BindTexture t \<notin> set (selectColour R geom mat object)"
  by (auto simp: selectColour_def byte_colour_def vehicle_colour_def split: option.splits prod.splits)

lemma selectColour_no_draw: "filter is_draw (selectColour R geom mat object) = []"
  by (auto simp: selectColour_def byte_colour_def vehicle_colour_def split: option.splits prod.splits)

lemma resolveTexture_False: "\<exists>binds. resolveTexture R mat False = Some binds"
  by (simp add: resolveTexture_def split: option.splits)

lemma resolveTexture_no_draw: "resolveTexture R mat q = Some binds \<Longrightarrow> filter is_draw binds = []"
  by (auto simp: resolveTexture_def split: option.splits if_splits)

text \<open>
  C10. A subgeometry whose material index is not below \<^verbatim>\<open>materials.size()\<close> is
  submitted all the same: the call returns true, the only OpenGL calls are the two buffer
  bindings and the draw (no texture is bound, no colour and no intensity is set), and
  \<^verbatim>\<open>rendered\<close> grows by one.
\<close>

theorem renderSubgeometry_material_out_of_range:
  assumes "g < length (geometries model)"
    and "sg < length (subgeom (geometries model ! g))"
    and "length (materials (geometries model ! g)) \<le> material (subgeom (geometries model ! g) ! sg)"
  shows "renderSubgeometry R model g sg matrix object queueTransparent s =
           Inr (True,
                s\<lparr>rendered := rendered s + 1,
                  gl := gl s @ [BindVertexArray (dbuff_VAOName (geometries model ! g)),
                               BindBuffer (EBO (geometries model ! g)),
                               DrawElements (dbuff_FaceType (geometries model ! g))
                                 (numIndices (subgeom (geometries model ! g) ! sg))
                                 (4 * start (subgeom (geometries model ! g) ! sg))]\<rparr>)"
  using assms by (simp add: renderSubgeometry_def submitDraw_def emit_def Let_def)

theorem renderSubgeometry_material_out_of_range_witness:
  "0 < length (geometries ex_model)
   \<and> 3 < length (subgeom (geometries ex_model ! 0))
   \<and> length (materials (geometries ex_model ! 0)) \<le> material (subgeom (geometries ex_model ! 0) ! 3)
   \<and> renderSubgeometry ex_R ex_model 0 3 mat4_identity None True ex_state0 =
       Inr (True, ex_state0\<lparr>rendered := 1,
                            gl := [BindVertexArray 1, BindBuffer 2, DrawElements 4 3 48]\<rparr>)"
proof -
  have h1: "0 < length (geometries ex_model)" by (simp add: ex_defs)
  have h2: "3 < length (subgeom (geometries ex_model ! 0))" by (simp add: ex_defs)
  have h3: "length (materials (geometries ex_model ! 0)) \<le> material (subgeom (geometries ex_model ! 0) ! 3)"
    by (simp add: ex_defs)
  show ?thesis
    using renderSubgeometry_material_out_of_range
            [OF h1 h2 h3, where R = ex_R and matrix = mat4_identity and object = None
               and queueTransparent = True and s = ex_state0] h1 h2 h3
    by (simp add: ex_defs)
qed

text \<open>
  C5. Let the material of a subgeometry have at least one texture reference, and look the
  first one up in the texture cache. If it is found, is flagged transparent and the call is
  made in the opaque pass (\<^verbatim>\<open>queueTransparent\<close>), the call returns false, having
  bound no texture, drawn nothing and left \<^verbatim>\<open>rendered\<close> as it was. If it is found
  otherwise, the call returns true, the texture bound is that texture and no other, and the
  subgeometry is drawn once. If it is not found, the call returns true, binds no texture,
  and the subgeometry is drawn once.
\<close>

theorem renderSubgeometry_texture_resolution:
  assumes "g < length (geometries model)"
    and "sg < length (subgeom (geometries model ! g))"
    and "material (subgeom (geometries model ! g) ! sg) < length (materials (geometries model ! g))"
    and "mat = materials (geometries model ! g) ! material (subgeom (geometries model ! g) ! sg)"
    and "textures mat \<noteq> []"
  shows "(case gameData_textures R (textures mat ! 0) of
            Some tex \<Rightarrow>
              if transparent tex \<and> queueTransparent then
                (\<exists>s'. renderSubgeometry R model g sg matrix object queueTransparent s = Inr (False, s')
                   \<and> (\<forall>t. BindTexture t \<notin> set (emitted s s'))
                   \<and> filter is_draw (emitted s s') = []
                   \<and> rendered s' = rendered s)
              else
                (\<exists>s'. renderSubgeometry R model g sg matrix object queueTransparent s = Inr (True, s')
                   \<and> (\<forall>t. BindTexture t \<in> set (emitted s s') \<longleftrightarrow> t = texName tex)
                   \<and> length (filter is_draw (emitted s s')) = 1
                   \<and> rendered s' = rendered s + 1)
          | None \<Rightarrow>
              (\<exists>s'. renderSubgeometry R model g sg matrix object queueTransparent s = Inr (True, s')
                 \<and> (\<forall>t. BindTexture t \<notin> set (emitted s s'))
                 \<and> length (filter is_draw (emitted s s')) = 1
                 \<and> rendered s' = rendered s + 1))"
  using assms
  by (auto simp: renderSubgeometry_def resolveTexture_def submitDraw_def emit_def Let_def emitted_def
        selectColour_no_bind selectColour_no_draw split: option.splits)

theorem renderSubgeometry_texture_resolution_witness:
  "1 < length (subgeom (geometries ex_model ! 0))
   \<and> material (subgeom (geometries ex_model ! 0) ! 1) < length (materials (geometries ex_model ! 0))
   \<and> textures ex_glass \<noteq> []
   \<and> gameData_textures ex_R (textures ex_glass ! 0) = Some \<lparr>texName = 7, transparent = True\<rparr>
   \<and> (\<exists>s'. renderSubgeometry ex_R ex_model 0 1 mat4_identity None True ex_state0 = Inr (False, s')
          \<and> (\<forall>t. BindTexture t \<notin> set (emitted ex_state0 s'))
          \<and> filter is_draw (emitted ex_state0 s') = []
          \<and> rendered s' = rendered ex_state0)
   \<and> (\<exists>s'. renderSubgeometry ex_R ex_model 0 1 mat4_identity None False ex_state0 = Inr (True, s')
          \<and> (\<forall>t. BindTexture t \<in> set (emitted ex_state0 s') \<longleftrightarrow> t = 7)
          \<and> length (filter is_draw (emitted ex_state0 s')) = 1
          \<and> rendered s' = rendered ex_state0 + 1)"
proof -
  have h1: "0 < length (geometries ex_model)" by (simp add: ex_defs)
  have h2: "1 < length (subgeom (geometries ex_model ! 0))" by (simp add: ex_defs)
  have h3: "material (subgeom (geometries ex_model ! 0) ! 1) < length (materials (geometries ex_model ! 0))"
    by (simp add: ex_defs)
  have h4: "ex_glass = materials (geometries ex_model ! 0) ! material (subgeom (geometries ex_model ! 0) ! 1)"
    by (simp add: ex_defs)
  have h5: "textures ex_glass \<noteq> []" by (simp add: ex_defs)
  have tex: "gameData_textures ex_R (textures ex_glass ! 0) = Some \<lparr>texName = 7, transparent = True\<rparr>"
    by (simp add: ex_defs)
  show ?thesis
    using renderSubgeometry_texture_resolution
            [OF h1 h2 h3 h4 h5, where R = ex_R and queueTransparent = True
               and matrix = mat4_identity and object = None and s = ex_state0]
          renderSubgeometry_texture_resolution
            [OF h1 h2 h3 h4 h5, where R = ex_R and queueTransparent = False
               and matrix = mat4_identity and object = None and s = ex_state0]
          h2 h3 h5 tex
    by simp
qed

subsection \<open>Frustum culling in the frame traversal\<close>

text \<open>
  What the test of line 577 does ensure. In the loop of \<^verbatim>\<open>renderFrame\<close> over the
  geometry chunks of a frame, take a chunk whose bounds centre, translated by the translation
  column of the matrix that \<^verbatim>\<open>renderFrame\<close> received for the frame, is further than
  its radius outside one of the frustum planes. The iteration for that chunk leaves the
  renderer as it found it: no OpenGL call is made, nothing is appended to the transparency
  queue, and no counter moves.
\<close>

lemma renderFrame_culled_chunk_no_draw:
  assumes "g < length (geometries m)"
    and "p \<in> set (camera_frustum_planes R)"
    and "signed_distance p (vec3_add (center (geometryBounds (geometries m ! g))) (mat4_col3 matrix))
           < - radius (geometryBounds (geometries m ! g))"
  shows "renderFrame_geometry R m matrix localmatrix object vis g s = Inr s"
proof -
  have "\<not> intersects (camera_frustum_planes R)
            (vec3_add (center (geometryBounds (geometries m ! g))) (mat4_col3 matrix))
            (radius (geometryBounds (geometries m ! g)))"
    using assms(2,3) by (auto simp: intersects_def list_all_iff outside_plane_def)
  then show ?thesis using assms(1) by (simp add: renderFrame_geometry_def Let_def)
qed

lemma renderFrame_culled_chunk_no_draw_example:
  "renderFrame_geometry ex_R ex_model (glm_translate mat4_identity (200, 0, 0))
        (glm_translate mat4_identity (200, 0, 0)) None True 0 ex_state0 = Inr ex_state0"
proof -
  have h1: "0 < length (geometries ex_model)" by (simp add: ex_defs)
  have h2: "\<lparr>normal = (- 1, 0, 0), distance = 100\<rparr> \<in> set (camera_frustum_planes ex_R)"
    by (simp add: ex_defs)
  have h3: "signed_distance \<lparr>normal = (- 1, 0, 0), distance = 100\<rparr>
              (vec3_add (center (geometryBounds (geometries ex_model ! 0)))
                        (mat4_col3 (glm_translate mat4_identity (200, 0, 0))))
              < - radius (geometryBounds (geometries ex_model ! 0))"
    by (simp add: ex_defs glm_defs signed_distance_def)
  show ?thesis using h1 h2 h3 by (rule renderFrame_culled_chunk_no_draw)
qed

text \<open>
  C1. The world-space bounding sphere of a chunk is its bounds centre translated by the
  accumulated position of its frame, the translation column of the local matrix with which
  line 586 draws the chunk. Line 577 tests another sphere: it translates the centre by the
  matrix the frame received, in which the frame's own transform is not yet multiplied. So a
  chunk whose world-space sphere is entirely outside a frustum plane is drawn all the same
  when its frame's parent is inside. The model \<open>ex_crane\<close> is rendered at the origin; its
  frame \<open>arm\<close> is 200 units away from the root frame, its chunk has radius 1, and the
  frustum is the cube of half-width 100. The sphere at the arm is outside the plane
  \<open>x \<le> 100\<close>, and the chunk is submitted, with the model matrix that places it at 200.
\<close>

theorem renderFrame_draws_chunk_outside_frustum:
  "\<lparr>normal = (- 1, 0, 0), distance = 100\<rparr> \<in> set (camera_frustum_planes ex_R)
   \<and> frames ex_crane ! rootFrameIdx ex_crane = ModelFrame ''base'' mat4_identity [] [ex_arm]
   \<and> getGeometries ex_arm = [1]
   \<and> frame_localmatrix ex_R ex_arm
        (frame_localmatrix ex_R (ModelFrame ''base'' mat4_identity [] [ex_arm]) mat4_identity None) None
       = glm_translate mat4_identity (200, 0, 0)
   \<and> signed_distance \<lparr>normal = (- 1, 0, 0), distance = 100\<rparr>
        (vec3_add (center (geometryBounds (geometries ex_crane ! 1)))
                  (mat4_col3 (glm_translate mat4_identity (200, 0, 0))))
        < - radius (geometryBounds (geometries ex_crane ! 1))
   \<and> renderModel ex_R ex_crane mat4_identity None ex_state0 =
       Inr (ex_state0\<lparr>rendered := 1,
                        gl := [UniformCol 1 1 1 1, UniformModel (glm_translate mat4_identity (200, 0, 0)),
                               UniformCol 1 1 1 1, BindVertexArray 3, BindBuffer 4, BindTexture 5,
                               UniformMatDiffuse 1, UniformMatAmbient 1, DrawElements 4 3 0]\<rparr>)"
  by (simp add: ex_defs glm_defs render_defs signed_distance_def Let_def upt_rec)

subsection \<open>Level of detail of an instance\<close>




text \<open>
  C3, as amended. Take an instance that reaches the level-of-detail step and whose object data
  has \<^verbatim>\<open>numClumps == 1\<close>. If \<open>mindist > drawDistance[0]\<close>: with a linked
  lower-detail instance whose own \<open>drawDistance[0]\<close> is exceeded as well, the instance only
  increments \<^verbatim>\<open>culled\<close>; with a linked instance within its threshold, the linked
  instance's model is rendered from its root frame with the matrix of the instance, if that
  model is loaded, and nothing happens if it is not; with no linked instance nothing is
  drawn and \<^verbatim>\<open>culled\<close> is not incremented. If \<open>mindist\<close> does not exceed
  \<open>drawDistance[0]\<close>: the instance's own model is rendered from its root frame unless the
  object data carries the \<^verbatim>\<open>LOD\<close> flag, in which case nothing is drawn.
\<close>

theorem renderInstance_single_clump_lod:
  assumes "numClumps (inst_object inst) = 1"
    and "\<not> (timeOn (inst_object inst) \<noteq> timeOff (inst_object inst)
            \<and> getHour R < timeOn (inst_object inst) \<and> getHour R > timeOff (inst_object inst))"
    and "inst_model inst = Some (Some mdl)"
    and "matrixModel = instance_matrixModel inst"
    and "mindist = instance_mindist R mdl matrixModel"
  shows "renderInstance R inst s =
           (if mindist > drawDistance (inst_object inst) 0 then
              (case LODinstance inst of
                 None \<Rightarrow> Inr s
               | Some lod \<Rightarrow>
                   if mindist > drawDistance (inst_object lod) 0 then Inr (s\<lparr>culled := culled s + 1\<rparr>)
                   else (case inst_model lod of
                           Some (Some lodModel) \<Rightarrow> renderModel R lodModel matrixModel None s
                         | Some None \<Rightarrow> Inr s
                         | None \<Rightarrow> Inl NullPointer))
            else if LOD (inst_object inst) then Inr s
            else renderModel R mdl matrixModel None s)"
proof -
  have nt: "(timeOn (inst_object inst) \<noteq> timeOff (inst_object inst)
            \<and> getHour R < timeOn (inst_object inst) \<and> getHour R > timeOff (inst_object inst)) = False"
    using assms(2) by blast
  show ?thesis
    using assms(1,3,4,5) by (simp add: renderInstance_def Let_def nt split: option.splits)
qed

theorem renderInstance_single_clump_lod_witness:
  "numClumps (inst_object ex_lamp) = 1
   \<and> instance_mindist ex_R ex_model
        (instance_matrixModel ex_lamp) = 29
   \<and> renderInstance ex_R
        ex_lamp ex_state0 =
       renderModel ex_R ex_model
         (instance_matrixModel ex_lamp)
         None ex_state0"
proof -
  let ?lod = "ex_lamp_lod"
  let ?inst = "ex_lamp"
  have h1: "numClumps (inst_object ?inst) = 1" by (simp add: ex_defs)
  have h2: "\<not> (timeOn (inst_object ?inst) \<noteq> timeOff (inst_object ?inst)
            \<and> getHour ex_R < timeOn (inst_object ?inst) \<and> getHour ex_R > timeOff (inst_object ?inst))"
    by (simp add: ex_defs)
  have h3: "inst_model ?inst = Some (Some ex_model)" by (simp add: ex_defs)
  have md: "instance_mindist ex_R ex_model (instance_matrixModel ?inst) = 29"
    by (simp add: ex_defs glm_defs instance_mindist_def instance_matrixModel_def)
  have d0: "drawDistance (inst_object ?inst) 0 = 20" by (simp add: ex_defs)
  have l: "LODinstance ?inst = Some ?lod" by (simp add: ex_defs)
  have ld: "drawDistance (inst_object ?lod) 0 = 100" by (simp add: ex_defs)
  have lm: "inst_model ?lod = Some (Some ex_model)" by (simp add: ex_defs)
  have "renderInstance ex_R ?inst ex_state0 =
          renderModel ex_R ex_model (instance_matrixModel ?inst) None ex_state0"
    unfolding renderInstance_single_clump_lod [OF h1 h2 h3 refl refl, where s = ex_state0]
    by (simp add: md d0 l ld lm)
  with h1 md show ?thesis by blast
qed

text \<open>
  The claim C3 as it was stated fails in two places. An instance of one clump beyond
  \<open>drawDistance[0]\<close> (here at \<open>mindist = 29 > 20\<close>) with no linked instance is not
  counted: \<^verbatim>\<open>culled\<close> stays 0. And an instance within \<open>drawDistance[0]\<close> (here at
  \<open>mindist = 9\<close>) whose object data carries the \<^verbatim>\<open>LOD\<close> flag is not rendered:
  the trace stays empty.
\<close>

theorem renderInstance_single_clump_counterexample:
  "numClumps (inst_object ex_post) = 1
   \<and> LODinstance ex_post = None
   \<and> instance_mindist ex_R ex_model
        (instance_matrixModel ex_post) = 29
   \<and> drawDistance (inst_object ex_post) 0 = 20
   \<and> renderInstance ex_R ex_post ex_state0
       = Inr ex_state0
   \<and> culled ex_state0 = 0
   \<and> numClumps (inst_object ex_stub) = 1
   \<and> instance_mindist ex_R ex_model
        (instance_matrixModel ex_stub) = 9
   \<and> renderInstance ex_R ex_stub ex_state0
       = Inr ex_state0
   \<and> gl ex_state0 = [] \<and> rendered ex_state0 = 0"
  by (simp add: ex_defs glm_defs renderInstance_def instance_mindist_def instance_matrixModel_def)

subsection \<open>The frame traversal\<close>

lemma foldM_total:
  assumes "\<And>x s. x \<in> set xs \<Longrightarrow> \<exists>s'. f x s = Inr s'"
  shows "\<exists>s'. foldM f xs s = Inr s'"
  using assms
proof (induction xs arbitrary: s)
  case Nil
  then show ?case by simp
next
  case (Cons x xs)
  from Cons.prems[of x s] obtain s1 where s1: "f x s = Inr s1" by auto
  from Cons.IH[of s1] Cons.prems obtain s2 where "foldM f xs s1 = Inr s2" by auto
  with s1 show ?case by simp
qed

lemma renderSubgeometry_total:
  "g < length (geometries model) \<Longrightarrow> sg < length (subgeom (geometries model ! g)) \<Longrightarrow>
   \<exists>b s'. renderSubgeometry R model g sg matrix object q s = Inr (b, s')"
  by (auto simp: renderSubgeometry_def Let_def split: option.splits)

lemma renderGeometry_step_total:
  "g < length (geometries model) \<Longrightarrow> sg < length (subgeom (geometries model ! g)) \<Longrightarrow>
   \<exists>s'. renderGeometry_step R model g matrix object sg s = Inr s'"
  using renderSubgeometry_total[of g model sg R matrix object True s]
  by (auto simp: renderGeometry_step_def)

lemma renderGeometry_total:
  assumes "g < length (geometries model)"
  shows "\<exists>s'. renderGeometry R model g matrix object s = Inr s'"
proof -
  have "\<exists>s'. foldM (renderGeometry_step R model g matrix object)
                [0 ..< length (subgeom (geometries model ! g))]
                (emit [UniformModel matrix, UniformCol 1 1 1 1] s) = Inr s'"
    by (rule foldM_total) (simp add: renderGeometry_step_total assms)
  then show ?thesis using assms by (simp add: renderGeometry_def Let_def)
qed

lemma renderFrame_geometry_total:
  "g < length (geometries m) \<Longrightarrow>
   \<exists>s'. renderFrame_geometry R m matrix localmatrix object vis g s = Inr s'"
  by (simp add: renderFrame_geometry_def Let_def renderGeometry_total)

lemma discard_result_Inr: "discard_result r = Inr s' \<longleftrightarrow> (\<exists>b. r = Inr (b, s'))"
  by (auto simp: discard_result_def split: sum.splits)

lemma renderFrame_result_True:
  "renderFrame R m f matrix object q s = Inr (b, s') \<Longrightarrow> b"
  by (cases f) (auto simp: Let_def split: sum.splits)

lemma renderFrame_total:
  "frame_ok m f \<Longrightarrow> \<exists>s'. renderFrame R m f matrix object q s = Inr (True, s')"
proof (induction R m f matrix object q s rule: renderFrame.induct)
  case (1 R m nm tf gs cs matrix object q s)
  let ?f = "ModelFrame nm tf gs cs"
  let ?L = "frame_localmatrix R ?f matrix object"
  from "1.prems" have gs: "\<And>g. g \<in> set gs \<Longrightarrow> g < length (geometries m)"
    and cs: "\<And>c. c \<in> set cs \<Longrightarrow> frame_ok m c"
    by (auto simp: list_all_iff)
  have "\<exists>s1. foldM (renderFrame_geometry R m matrix ?L object (frame_vis ?f object)) gs s = Inr s1"
    by (rule foldM_total) (simp add: renderFrame_geometry_total gs)
  then obtain s1 where
    g: "foldM (renderFrame_geometry R m matrix ?L object (frame_vis ?f object)) gs s = Inr s1" ..
  have "\<exists>s2. foldM (\<lambda>c s'. discard_result (renderFrame R m c ?L object q s')) cs s1 = Inr s2"
  proof (rule foldM_total)
    fix x t
    assume x: "x \<in> set cs"
    have "\<exists>s'. renderFrame R m x ?L object q t = Inr (True, s')"
      using x cs[OF x] by (rule "1.IH"[OF refl refl refl g])
    then show "\<exists>s'. discard_result (renderFrame R m x ?L object q t) = Inr s'"
      by (auto simp: discard_result_def)
  qed
  then obtain s2 where "foldM (\<lambda>c s'. discard_result (renderFrame R m c ?L object q s')) cs s1 = Inr s2" ..
  with g show ?case by (simp add: Let_def)
qed

lemma renderFrame_unfold:
  "renderFrame R m f matrix object q s =
     (case foldM (renderFrame_geometry R m matrix (frame_localmatrix R f matrix object) object
                    (frame_vis f object)) (getGeometries f) s of
        Inl e \<Rightarrow> Inl e
      | Inr s1 \<Rightarrow>
          (case foldM (\<lambda>c t. discard_result
                         (renderFrame R m c (frame_localmatrix R f matrix object) object q t))
                      (getChildren f) s1 of
             Inl e \<Rightarrow> Inl e
           | Inr s2 \<Rightarrow> Inr (True, s2)))"
proof (cases f)
  case (ModelFrame nm tf gs cs)
  show ?thesis unfolding ModelFrame by (simp add: Let_def cong: sum.case_cong)
qed

lemma foldM_skip_all:
  assumes "\<And>x s. x \<in> set xs \<Longrightarrow> f x s = Inr s"
  shows "foldM f xs s = Inr s"
  using assms by (induction xs arbitrary: s) simp_all

lemma foldM_append:
  "foldM f (xs @ ys) s = (case foldM f xs s of Inl e \<Rightarrow> Inl e | Inr t \<Rightarrow> foldM f ys t)"
  by (induction xs arbitrary: s) (simp_all split: sum.splits)

lemma hidden_frame_geometry:
  "\<not> vis \<Longrightarrow> foldM (renderFrame_geometry R m matrix localmatrix object vis) gs s = Inr s"
  by (rule foldM_skip_all) (simp add: renderFrame_geometry_def)

lemma culled_frame_geometry:
  assumes "list_all (chunk_culled R m matrix) gs"
  shows "foldM (renderFrame_geometry R m matrix localmatrix object vis) gs s = Inr s"
proof (rule foldM_skip_all)
  fix g t assume "g \<in> set gs"
  with assms have "chunk_culled R m matrix g" by (simp add: list_all_iff)
  then show "renderFrame_geometry R m matrix localmatrix object vis g t = Inr t"
    by (simp add: chunk_culled_def renderFrame_geometry_def Let_def)
qed

text \<open>
  C9. A call of \<^verbatim>\<open>renderFrame\<close> is the loop over the frame's own chunks followed by
  the traversal of its children, one after the other in their order, each with the frame's
  local matrix and the same object and flag, each starting in the state its predecessor left;
  the result is the state the last child leaves, with the value true. The children do not
  depend on what happened to the frame itself: when the object hides the frame, and likewise
  when every chunk of the frame is culled, the loop over the chunks does nothing and the call
  is exactly the traversal of the children. Every child takes part: with the children split
  around any one of them, the traversal of the children is the traversal of those before it,
  then \<^verbatim>\<open>renderFrame\<close> on that child, then the traversal of those after it. On a frame
  tree whose geometry indices are in range the call returns, and whenever it returns its
  value is true, whatever was hidden, culled or deferred on the way.
\<close>

theorem renderFrame_visits_children:
  "renderFrame R m f matrix object q s =
     (case foldM (renderFrame_geometry R m matrix (frame_localmatrix R f matrix object) object
                    (frame_vis f object)) (getGeometries f) s of
        Inl e \<Rightarrow> Inl e
      | Inr s1 \<Rightarrow>
          (case foldM (\<lambda>c t. discard_result
                         (renderFrame R m c (frame_localmatrix R f matrix object) object q t))
                      (getChildren f) s1 of
             Inl e \<Rightarrow> Inl e
           | Inr s2 \<Rightarrow> Inr (True, s2)))
   \<and> (\<not> frame_vis f object \<or> list_all (chunk_culled R m matrix) (getGeometries f) \<longrightarrow>
        renderFrame R m f matrix object q s =
          (case foldM (\<lambda>c t. discard_result
                         (renderFrame R m c (frame_localmatrix R f matrix object) object q t))
                      (getChildren f) s of
             Inl e \<Rightarrow> Inl e
           | Inr s2 \<Rightarrow> Inr (True, s2)))
   \<and> (getChildren f = before @ c # after \<longrightarrow>
        foldM (\<lambda>c t. discard_result
                 (renderFrame R m c (frame_localmatrix R f matrix object) object q t))
              (getChildren f) s1 =
          (case foldM (\<lambda>c t. discard_result
                         (renderFrame R m c (frame_localmatrix R f matrix object) object q t))
                      before s1 of
             Inl e \<Rightarrow> Inl e
           | Inr t1 \<Rightarrow>
               (case renderFrame R m c (frame_localmatrix R f matrix object) object q t1 of
                  Inl e \<Rightarrow> Inl e
                | Inr (b, t2) \<Rightarrow>
                    foldM (\<lambda>c t. discard_result
                             (renderFrame R m c (frame_localmatrix R f matrix object) object q t))
                          after t2)))
   \<and> (frame_ok m f \<longrightarrow> (\<exists>s'. renderFrame R m f matrix object q s = Inr (True, s')))
   \<and> (\<forall>b s'. renderFrame R m f matrix object q s = Inr (b, s') \<longrightarrow> b)"
proof (intro conjI impI allI)
  show "renderFrame R m f matrix object q s =
     (case foldM (renderFrame_geometry R m matrix (frame_localmatrix R f matrix object) object
                    (frame_vis f object)) (getGeometries f) s of
        Inl e \<Rightarrow> Inl e
      | Inr s1 \<Rightarrow>
          (case foldM (\<lambda>c t. discard_result
                         (renderFrame R m c (frame_localmatrix R f matrix object) object q t))
                      (getChildren f) s1 of
             Inl e \<Rightarrow> Inl e
           | Inr s2 \<Rightarrow> Inr (True, s2)))"
    by (rule renderFrame_unfold)
next
  assume "\<not> frame_vis f object \<or> list_all (chunk_culled R m matrix) (getGeometries f)"
  then have "foldM (renderFrame_geometry R m matrix (frame_localmatrix R f matrix object) object
                      (frame_vis f object)) (getGeometries f) s = Inr s"
    using hidden_frame_geometry culled_frame_geometry by blast
  then show "renderFrame R m f matrix object q s =
          (case foldM (\<lambda>c t. discard_result
                         (renderFrame R m c (frame_localmatrix R f matrix object) object q t))
                      (getChildren f) s of
             Inl e \<Rightarrow> Inl e
           | Inr s2 \<Rightarrow> Inr (True, s2))"
    by (subst renderFrame_unfold) simp
next
  assume "getChildren f = before @ c # after"
  then show "foldM (\<lambda>c t. discard_result
                 (renderFrame R m c (frame_localmatrix R f matrix object) object q t))
              (getChildren f) s1 =
          (case foldM (\<lambda>c t. discard_result
                         (renderFrame R m c (frame_localmatrix R f matrix object) object q t))
                      before s1 of
             Inl e \<Rightarrow> Inl e
           | Inr t1 \<Rightarrow>
               (case renderFrame R m c (frame_localmatrix R f matrix object) object q t1 of
                  Inl e \<Rightarrow> Inl e
                | Inr (b, t2) \<Rightarrow>
                    foldM (\<lambda>c t. discard_result
                             (renderFrame R m c (frame_localmatrix R f matrix object) object q t))
                          after t2))"
    by (simp add: foldM_append discard_result_def split: sum.splits prod.splits)
next
  assume "frame_ok m f"
  then show "\<exists>s'. renderFrame R m f matrix object q s = Inr (True, s')" by (rule renderFrame_total)
next
  fix b s' assume "renderFrame R m f matrix object q s = Inr (b, s')"
  then show b by (rule renderFrame_result_True)
qed

text \<open>
  The witness: the object hides the frame \<open>root\<close>, whose own chunk (vertex array 3) would be
  drawn at the origin. The call is the traversal of the children \<open>far\<close> and \<open>near\<close>: the
  chunk of \<open>far\<close> (vertex array 3) is drawn once, three parts of the chunk of \<open>near\<close>
  (vertex array 1) are drawn and its glass part is queued, and the value is true.
\<close>

theorem renderFrame_visits_children_witness:
  "frame_ok ex_model ex_root
   \<and> \<not> frame_vis ex_root (Some (ex_object Character (Some (Some ex_model))))
   \<and> getGeometries ex_root = [1]
   \<and> getChildren ex_root = [ex_far] @ ex_near # []
   \<and> renderFrame ex_R ex_model ex_root mat4_identity
         (Some (ex_object Character (Some (Some ex_model)))) True ex_state0 =
       (case foldM (\<lambda>c t. discard_result
                      (renderFrame ex_R ex_model c
                         (frame_localmatrix ex_R ex_root mat4_identity
                            (Some (ex_object Character (Some (Some ex_model)))))
                         (Some (ex_object Character (Some (Some ex_model)))) True t))
                   (getChildren ex_root) ex_state0 of
          Inl e \<Rightarrow> Inl e
        | Inr s2 \<Rightarrow> Inr (True, s2))
   \<and> renderFrame ex_R ex_model ex_root mat4_identity
         (Some (ex_object Character (Some (Some ex_model)))) True ex_state0 =
       Inr (True,
            ex_state0\<lparr>rendered := 4,
                       transparentDrawQueue :=
                         [queued ex_model 0 mat4_identity
                            (Some (ex_object Character (Some (Some ex_model)))) 1],
                       gl := [UniformCol 1 1 1 1, UniformModel mat4_identity, UniformCol 1 1 1 1,
                              BindVertexArray 3, BindBuffer 4, BindTexture 5,
                              UniformMatDiffuse 1, UniformMatAmbient 1, DrawElements 4 3 0,
                              UniformModel mat4_identity, UniformCol 1 1 1 1,
                              BindVertexArray 1, BindBuffer 2, BindTexture 5, UniformCol 1 1 1 1,
                              UniformMatDiffuse 1, UniformMatAmbient 1, DrawElements 4 3 0,
                              BindVertexArray 1, BindBuffer 2,
                              BindVertexArray 1, BindBuffer 2, UniformCol 1 1 1 1,
                              UniformMatDiffuse 1, UniformMatAmbient 1, DrawElements 4 3 36,
                              BindVertexArray 1, BindBuffer 2, DrawElements 4 3 48]\<rparr>)"
proof -
  let ?ob = "Some (ex_object Character (Some (Some ex_model)))"
  have ok: "frame_ok ex_model ex_root" by (simp add: ex_defs)
  have hid: "\<not> frame_vis ex_root ?ob" by (simp add: ex_defs frame_vis_def)
  have gs: "getGeometries ex_root = [1]" by (simp add: ex_defs)
  have ch: "getChildren ex_root = [ex_far] @ ex_near # []" by (simp add: ex_defs)
  note th = renderFrame_visits_children
              [where m = ex_model and f = ex_root and R = ex_R and matrix = mat4_identity
                 and object = ?ob and q = True and s = ex_state0]
  from th hid have eq: "renderFrame ex_R ex_model ex_root mat4_identity ?ob True ex_state0 =
       (case foldM (\<lambda>c t. discard_result
                      (renderFrame ex_R ex_model c
                         (frame_localmatrix ex_R ex_root mat4_identity ?ob) ?ob True t))
                   (getChildren ex_root) ex_state0 of
          Inl e \<Rightarrow> Inl e
        | Inr s2 \<Rightarrow> Inr (True, s2))"
    by blast
  have val: "(case foldM (\<lambda>c t. discard_result
                      (renderFrame ex_R ex_model c
                         (frame_localmatrix ex_R ex_root mat4_identity ?ob) ?ob True t))
                   (getChildren ex_root) ex_state0 of
          Inl e \<Rightarrow> Inl e
        | Inr s2 \<Rightarrow> Inr (True, s2)) =
       Inr (True,
            ex_state0\<lparr>rendered := 4,
                       transparentDrawQueue := [queued ex_model 0 mat4_identity ?ob 1],
                       gl := [UniformCol 1 1 1 1, UniformModel mat4_identity, UniformCol 1 1 1 1,
                              BindVertexArray 3, BindBuffer 4, BindTexture 5,
                              UniformMatDiffuse 1, UniformMatAmbient 1, DrawElements 4 3 0,
                              UniformModel mat4_identity, UniformCol 1 1 1 1,
                              BindVertexArray 1, BindBuffer 2, BindTexture 5, UniformCol 1 1 1 1,
                              UniformMatDiffuse 1, UniformMatAmbient 1, DrawElements 4 3 0,
                              BindVertexArray 1, BindBuffer 2,
                              BindVertexArray 1, BindBuffer 2, UniformCol 1 1 1 1,
                              UniformMatDiffuse 1, UniformMatAmbient 1, DrawElements 4 3 36,
                              BindVertexArray 1, BindBuffer 2, DrawElements 4 3 48]\<rparr>)"
    by (simp add: ex_defs glm_defs render_defs queued_def Let_def upt_rec)
  from ok hid gs ch eq val show ?thesis by simp
qed

subsection \<open>The trace of the water pass\<close>

lemma waterHQ_tile_emit:
  "waterHQ_tile R t s =
     emit (if drawsHQ R t
           then waterTile_calls R (blockHQSize R) (gameData_realWater R) (WATER_HQ_DATA_SIZE R) t
           else []) s"
  by (cases t) (simp add: waterHQ_tile_def drawWaterTile_def waterTile_calls_def split: prod.splits)

lemma waterLQ_tile_emit:
  "waterLQ_tile R t s =
     emit (if drawsLQ R t
           then waterTile_calls R (blockLQSize R) (gameData_visibleWater R) (WATER_LQ_DATA_SIZE R) t
           else []) s"
  by (cases t) (simp add: waterLQ_tile_def drawWaterTile_def waterTile_calls_def split: prod.splits)

lemma fold_emit:
  assumes "\<And>t s. f t s = emit (if P t then c t else []) s"
  shows "fold f ts s = emit (concat (map c (filter P ts))) s"
proof (induction ts arbitrary: s)
  case Nil
  then show ?case by simp
next
  case (Cons t ts)
  then show ?case by (simp add: assms emit_emit)
qed

lemma renderWater_emit:
  "renderWater R s =
     emit ([BindVertexArray (waterDraw_VAOName R), UseWaterProgram, BindTexture (water_texName R),
            UniformWaterSize (blockHQSize R)]
           @ concat (map (waterTile_calls R (blockHQSize R) (gameData_realWater R) (WATER_HQ_DATA_SIZE R))
                         (filter (drawsHQ R) (grid (WATER_HQ_DATA_SIZE R))))
           @ [UniformWaterSize (blockLQSize R)]
           @ concat (map (waterTile_calls R (blockLQSize R) (gameData_visibleWater R) (WATER_LQ_DATA_SIZE R))
                         (filter (drawsLQ R) (grid (WATER_LQ_DATA_SIZE R))))) s"
proof -
  have hq: "fold (waterHQ_tile R) ts t =
              emit (concat (map (waterTile_calls R (blockHQSize R) (gameData_realWater R) (WATER_HQ_DATA_SIZE R))
                                (filter (drawsHQ R) ts))) t" for ts t
    by (rule fold_emit) (rule waterHQ_tile_emit)
  have lq: "fold (waterLQ_tile R) ts t =
              emit (concat (map (waterTile_calls R (blockLQSize R) (gameData_visibleWater R) (WATER_LQ_DATA_SIZE R))
                                (filter (drawsLQ R) ts))) t" for ts t
    by (rule fold_emit) (rule waterLQ_tile_emit)
  show ?thesis by (simp add: renderWater_def Let_def hq lq emit_emit)
qed

subsection \<open>The transparency queue\<close>

lemma replay_trace_one_draw: "length (filter is_draw (replay_trace R it)) = 1"
  using resolveTexture_False[of R "materials (geometries (dc_model it) ! dc_g it)
           ! material (subgeom (geometries (dc_model it) ! dc_g it) ! dc_sg it)"]
  by (auto simp: replay_trace_def Let_def selectColour_no_draw dest: resolveTexture_no_draw)

lemma replayDrawCall_eq:
  assumes "drawCall_ok it"
  shows "replayDrawCall R it s =
           Inr (s\<lparr>rendered := rendered s + 1, gl := gl s @ replay_trace R it\<rparr>)"
  using assms resolveTexture_False[of R "materials (geometries (dc_model it) ! dc_g it)
           ! material (subgeom (geometries (dc_model it) ! dc_g it) ! dc_sg it)"]
  by (auto simp: replayDrawCall_def drawCall_ok_def renderSubgeometry_def replay_trace_def
        discard_result_def submitDraw_def emit_def Let_def)

lemma foldM_replayDrawCall:
  assumes "\<forall>it \<in> set q. drawCall_ok it"
  shows "foldM (replayDrawCall R) q s =
           Inr (s\<lparr>rendered := rendered s + length q, gl := gl s @ concat (map (replay_trace R) q)\<rparr>)"
  using assms
proof (induction q arbitrary: s)
  case Nil
  then show ?case by simp
next
  case (Cons it q)
  then show ?case by (simp add: replayDrawCall_eq)
qed

lemma flushTransparentDrawQueue_eq:
  assumes "\<forall>it \<in> set (transparentDrawQueue s). drawCall_ok it"
  shows "flushTransparentDrawQueue R s =
           Inr (s\<lparr>rendered := rendered s + length (transparentDrawQueue s),
                  gl := gl s @ concat (map (replay_trace R) (transparentDrawQueue s)),
                  transparentDrawQueue := []\<rparr>)"
  using assms by (simp add: flushTransparentDrawQueue_def foldM_replayDrawCall)

lemma renderSubgeometry_queue:
  "renderSubgeometry R model g sg matrix object q s = Inr (b, s') \<Longrightarrow>
   transparentDrawQueue s' = transparentDrawQueue s"
  by (auto simp: renderSubgeometry_def submitDraw_def emit_def Let_def split: if_splits option.splits)

lemma renderSubgeometry_defers:
  "g < length (geometries model) \<Longrightarrow> sg < length (subgeom (geometries model ! g)) \<Longrightarrow>
   \<exists>s'. renderSubgeometry R model g sg matrix object True s = Inr (\<not> defers R model g sg, s')"
  by (auto simp: renderSubgeometry_def defers_def Let_def split: option.splits)

lemma renderGeometry_step_queue:
  assumes "g < length (geometries model)" "sg < length (subgeom (geometries model ! g))"
  shows "\<exists>s'. renderGeometry_step R model g matrix object sg s = Inr s'
           \<and> transparentDrawQueue s' = transparentDrawQueue s
                @ (if defers R model g sg then [queued model g matrix object sg] else [])"
proof -
  from renderSubgeometry_defers[OF assms] obtain s1 where
    r: "renderSubgeometry R model g sg matrix object True s = Inr (\<not> defers R model g sg, s1)" by blast
  from renderSubgeometry_queue[OF r] have "transparentDrawQueue s1 = transparentDrawQueue s" .
  with r show ?thesis by (simp add: renderGeometry_step_def queued_def)
qed

lemma foldM_renderGeometry_step_queue:
  assumes "g < length (geometries model)"
    and "\<forall>sg \<in> set sgs. sg < length (subgeom (geometries model ! g))"
  shows "\<exists>s'. foldM (renderGeometry_step R model g matrix object) sgs s = Inr s'
           \<and> transparentDrawQueue s' = transparentDrawQueue s
                @ map (queued model g matrix object) (filter (defers R model g) sgs)"
  using assms(2)
proof (induction sgs arbitrary: s)
  case Nil
  then show ?case by simp
next
  case (Cons sg sgs)
  then have sg: "sg < length (subgeom (geometries model ! g))" by simp
  from renderGeometry_step_queue[OF assms(1) sg] obtain s1 where
    s1: "renderGeometry_step R model g matrix object sg s = Inr s1"
    and q1: "transparentDrawQueue s1 = transparentDrawQueue s
                @ (if defers R model g sg then [queued model g matrix object sg] else [])" by blast
  from Cons.IH[of s1] Cons.prems obtain s' where
    "foldM (renderGeometry_step R model g matrix object) sgs s1 = Inr s'"
    "transparentDrawQueue s' = transparentDrawQueue s1
                @ map (queued model g matrix object) (filter (defers R model g) sgs)" by auto
  with s1 q1 show ?case by simp
qed

lemma renderGeometry_queue:
  assumes "g < length (geometries model)"
  shows "\<exists>s'. renderGeometry R model g modelMatrix object s = Inr s'
           \<and> transparentDrawQueue s' = transparentDrawQueue s
                @ map (queued model g modelMatrix object)
                      (filter (defers R model g) [0 ..< length (subgeom (geometries model ! g))])"
  using foldM_renderGeometry_step_queue[OF assms, of "[0 ..< length (subgeom (geometries model ! g))]"
          R modelMatrix object "emit [UniformModel modelMatrix, UniformCol 1 1 1 1] s"] assms
  by (simp add: renderGeometry_def Let_def emit_def)

lemma flushTransparentDrawQueue_empty:
  "flushTransparentDrawQueue R s = Inr s' \<Longrightarrow> transparentDrawQueue s' = []"
  by (auto simp: flushTransparentDrawQueue_def split: sum.splits)

lemma replayDrawCall_ok: "replayDrawCall R it s = Inr s' \<Longrightarrow> drawCall_ok it"
  by (auto simp: replayDrawCall_def drawCall_ok_def renderSubgeometry_def discard_result_def Let_def
           split: if_splits sum.splits)

lemma foldM_replayDrawCall_ok:
  "foldM (replayDrawCall R) q s = Inr s' \<Longrightarrow> \<forall>it \<in> set q. drawCall_ok it"
proof (induction q arbitrary: s)
  case Nil
  then show ?case by simp
next
  case (Cons it q)
  from Cons.prems obtain s1 where a: "replayDrawCall R it s = Inr s1"
    and b: "foldM (replayDrawCall R) q s1 = Inr s'" by (auto split: sum.splits)
  from a have "drawCall_ok it" by (rule replayDrawCall_ok)
  with Cons.IH[OF b] show ?case by simp
qed

lemma flushTransparentDrawQueue_flushed:
  assumes "flushTransparentDrawQueue R s = Inr s'"
  shows "s' = flushed R s"
proof -
  from assms obtain t where "foldM (replayDrawCall R) (transparentDrawQueue s) s = Inr t"
    by (auto simp: flushTransparentDrawQueue_def split: sum.splits)
  then have "\<forall>it \<in> set (transparentDrawQueue s). drawCall_ok it" by (rule foldM_replayDrawCall_ok)
  from flushTransparentDrawQueue_eq[OF this, of R] assms show ?thesis by (simp add: flushed_def)
qed

lemma replay_traces_draws: "length (filter is_draw (concat (map (replay_trace R) q))) = length q"
  by (induction q) (simp_all add: replay_trace_one_draw)

lemma flushed_draws:
  "length (filter is_draw (gl (flushed R s))) =
     length (filter is_draw (gl s)) + length (transparentDrawQueue s)"
  by (simp add: flushed_def replay_traces_draws)

text \<open>The steps of the opaque pass.\<close>

lemma opaque_step_refl [simp]: "opaque_step s s"
  by (simp add: opaque_step_def)

lemma opaque_step_trans: "opaque_step s t \<Longrightarrow> opaque_step t u \<Longrightarrow> opaque_step s u"
  by (auto simp: opaque_step_def intro: prefix_order.trans)

lemma opaque_step_culled [simp]: "opaque_step s (s\<lparr>culled := n\<rparr>)"
  by (simp add: opaque_step_def balance_def)

lemma opaque_step_cout [simp]: "opaque_step s (s\<lparr>cout := n\<rparr>)"
  by (simp add: opaque_step_def balance_def)

lemma opaque_step_emit:
  "filter is_draw cs = [] \<Longrightarrow> filter is_attempt cs = [] \<Longrightarrow> opaque_step s (emit cs s)"
  by (simp add: opaque_step_def balance_def emit_def)

lemma foldM_opaque_step:
  assumes "foldM f xs s = Inr s'"
    and "\<And>x s s'. x \<in> set xs \<Longrightarrow> f x s = Inr s' \<Longrightarrow> opaque_step s s'"
  shows "opaque_step s s'"
  using assms
proof (induction xs arbitrary: s)
  case Nil
  then show ?case by simp
next
  case (Cons x xs)
  from Cons.prems(1) obtain s1 where s1: "f x s = Inr s1" and rest: "foldM f xs s1 = Inr s'"
    by (auto split: sum.splits)
  have step: "opaque_step t t'" if "y \<in> set xs" "f y t = Inr t'" for y t t'
    using Cons.prems(2)[of y t t'] that by simp
  have "opaque_step s s1" using Cons.prems(2)[of x s s1] s1 by simp
  moreover have "opaque_step s1 s'" using rest step by (rule Cons.IH)
  ultimately show ?case by (rule opaque_step_trans)
qed

lemma selectColour_no_attempt: "filter is_attempt (selectColour R geom mat object) = []"
  by (auto simp: selectColour_def byte_colour_def vehicle_colour_def split: option.splits prod.splits)

lemma resolveTexture_no_attempt: "resolveTexture R mat q = Some binds \<Longrightarrow> filter is_attempt binds = []"
  by (auto simp: resolveTexture_def split: option.splits if_splits)

text \<open>A call of \<^verbatim>\<open>renderSubgeometry\<close> is one attempt, draws once iff it returns true, and
  leaves the queue alone.\<close>

lemma renderSubgeometry_counts:
  assumes "renderSubgeometry R model g sg matrix object q s = Inr (b, s')"
  shows "transparentDrawQueue s' = transparentDrawQueue s
         \<and> length (filter is_attempt (gl s')) = length (filter is_attempt (gl s)) + 1
         \<and> length (filter is_draw (gl s')) = length (filter is_draw (gl s)) + (if b then 1 else 0)"
  using assms
  by (auto simp: renderSubgeometry_def submitDraw_def emit_def Let_def selectColour_no_draw
        selectColour_no_attempt
      split: if_splits option.splits
      dest: resolveTexture_no_draw resolveTexture_no_attempt)

lemma renderGeometry_step_opaque:
  assumes "renderGeometry_step R model g matrix object sg s = Inr s'"
  shows "opaque_step s s'"
proof -
  from assms obtain b s1 where r: "renderSubgeometry R model g sg matrix object True s = Inr (b, s1)"
    and s': "s' = (if \<not> b then s1\<lparr>transparentDrawQueue := transparentDrawQueue s1 @
                      [\<lparr>dc_model = model, dc_g = g, dc_sg = sg, dc_matrix = matrix, dc_object = object\<rparr>]\<rparr>
                   else s1)"
    by (auto simp: renderGeometry_step_def split: sum.splits if_splits)
  from renderSubgeometry_counts[OF r] show ?thesis
    by (auto simp: s' opaque_step_def balance_def)
qed

lemma renderGeometry_opaque:
  assumes "renderGeometry R model g matrix object s = Inr s'"
  shows "opaque_step s s'"
proof -
  let ?s1 = "emit [UniformModel matrix, UniformCol 1 1 1 1] s"
  from assms have "foldM (renderGeometry_step R model g matrix object)
                     [0 ..< length (subgeom (geometries model ! g))] ?s1 = Inr s'"
    by (simp add: renderGeometry_def Let_def split: if_splits)
  then have "opaque_step ?s1 s'"
    by (rule foldM_opaque_step) (rule renderGeometry_step_opaque)
  moreover have "opaque_step s ?s1" by (rule opaque_step_emit) simp_all
  ultimately show ?thesis by (meson opaque_step_trans)
qed

lemma renderFrame_geometry_opaque:
  assumes "renderFrame_geometry R m matrix localmatrix object vis g s = Inr s'"
  shows "opaque_step s s'"
proof -
  have e: "opaque_step s (emit [UniformCol 1 1 1 1] s)" by (rule opaque_step_emit) simp_all
  show ?thesis
    using assms e
    by (auto simp: renderFrame_geometry_def Let_def split: if_splits
             dest!: renderGeometry_opaque intro: opaque_step_trans)
qed

lemma renderFrame_opaque:
  "renderFrame R m f matrix object q s = Inr (b, s') \<Longrightarrow> opaque_step s s'"
proof (induction R m f matrix object q s arbitrary: b s' rule: renderFrame.induct)
  case (1 R m nm tf gs cs matrix object q s)
  let ?f = "ModelFrame nm tf gs cs"
  let ?L = "frame_localmatrix R ?f matrix object"
  from "1.prems" obtain s1 where
    g: "foldM (renderFrame_geometry R m matrix ?L object (frame_vis ?f object)) gs s = Inr s1"
    and c: "foldM (\<lambda>c s'. discard_result (renderFrame R m c ?L object q s')) cs s1 = Inr s'"
    by (auto simp: Let_def split: sum.splits)
  have "opaque_step s s1"
    using g by (rule foldM_opaque_step) (rule renderFrame_geometry_opaque)
  moreover have "opaque_step s1 s'"
    using c
  proof (rule foldM_opaque_step)
    fix x t t'
    assume "x \<in> set cs" and "discard_result (renderFrame R m x ?L object q t) = Inr t'"
    then show "opaque_step t t'"
      using "1.IH"[OF refl refl refl g] by (auto simp: discard_result_Inr)
  qed
  ultimately show ?case by (rule opaque_step_trans)
qed

lemma renderModel_opaque:
  "renderModel R model modelMatrix object s = Inr s' \<Longrightarrow> opaque_step s s'"
  by (auto simp: renderModel_def discard_result_Inr split: if_splits dest: renderFrame_opaque)

lemma renderLODChild_opaque:
  "renderLODChild R mdl matrixModel k s = Inr s' \<Longrightarrow> opaque_step s s'"
  by (auto simp: renderLODChild_def Let_def discard_result_Inr split: list.splits if_splits
           dest: renderFrame_opaque)

lemma renderPedestrian_opaque:
  "renderPedestrian R charac s = Inr s' \<Longrightarrow> opaque_step s s'"
  by (auto simp: renderPedestrian_def Let_def split: option.splits dest: renderModel_opaque)

lemma renderInstance_opaque:
  "renderInstance R inst s = Inr s' \<Longrightarrow> opaque_step s s'"
  by (auto simp: renderInstance_def Let_def split: option.splits if_splits
           dest: renderModel_opaque renderLODChild_opaque)

lemma renderWheel_geometry_opaque:
  "renderWheel_geometry R model matrix g s = Inr s' \<Longrightarrow> opaque_step s s'"
  by (auto simp: renderWheel_geometry_def Let_def split: if_splits dest: renderGeometry_opaque)

lemma renderWheel_frames_opaque:
  "renderWheel_frames R model matrix nm fs s = Inr s' \<Longrightarrow> opaque_step s s'"
proof (induction fs)
  case Nil
  then show ?case by simp
next
  case (Cons f fs)
  show ?case
  proof (cases "getName f \<noteq> nm")
    case True
    with Cons show ?thesis by simp
  next
    case False
    with Cons.prems obtain firstLod others where
      "foldM (renderWheel_geometry R model matrix) (getGeometries firstLod) s = Inr s'"
      by (auto split: list.splits)
    then show ?thesis by (rule foldM_opaque_step) (rule renderWheel_geometry_opaque)
  qed
qed

lemma renderVehicleWheel_opaque:
  "renderVehicleWheel R inst w s = Inr s' \<Longrightarrow> opaque_step s s'"
  by (auto simp: renderVehicleWheel_def renderWheel_def Let_def split: option.splits if_splits
           dest: renderWheel_frames_opaque)

lemma renderVehicle_opaque:
  assumes "renderVehicle R inst s = Inr s'"
  shows "opaque_step s s'"
proof -
  let ?s1 = "if obj_model (veh_object inst) = None
             then s\<lparr>cout := cout s @ [ModelNotLoaded (veh_modelName inst) (gameData_models_size R)]\<rparr>
             else s"
  from assms obtain mdl mm s2 where
    m: "renderModel R mdl mm (Some (veh_object inst)) ?s1 = Inr s2"
    and w: "foldM (renderVehicleWheel R inst) [0 ..< info_wheels inst] s2 = Inr s'"
    by (auto simp: renderVehicle_def Let_def split: option.splits sum.splits)
  have "opaque_step s ?s1" by simp
  moreover have "opaque_step ?s1 s2" using m by (rule renderModel_opaque)
  moreover have "opaque_step s2 s'" using w by (rule foldM_opaque_step) (rule renderVehicleWheel_opaque)
  ultimately show ?thesis by (meson opaque_step_trans)
qed

text \<open>The frame: the three loops of the opaque pass, the flush of what they left in the queue,
  the water and the sky.\<close>

lemma renderWorld_frame:
  assumes "renderWorld R0 alpha s0 = Inr s'"
  shows "\<exists>s1 s2 s3.
           foldM (renderPedestrian (R0\<lparr>renderAlpha := alpha\<rparr>)) (pedestrians R0)
             (frame_start R0 s0) = Inr s1
         \<and> foldM (renderInstance (R0\<lparr>renderAlpha := alpha\<rparr>)) (objectInstances R0) s1 = Inr s2
         \<and> foldM (renderVehicle (R0\<lparr>renderAlpha := alpha\<rparr>)) (vehicleInstances R0) s2 = Inr s3
         \<and> opaque_step (frame_start R0 s0) s3
         \<and> s' = emit [BindVertexArray (vao R0), UseSkyProgram, DrawSkydome (8 * 10 * 6), BindVertexArray 0]
                  (renderWater (R0\<lparr>renderAlpha := alpha\<rparr>) (flushed (R0\<lparr>renderAlpha := alpha\<rparr>) s3))"
proof -
  let ?R = "R0\<lparr>renderAlpha := alpha\<rparr>"
  from assms obtain s1 s2 s3 s4 where
    p: "foldM (renderPedestrian ?R) (pedestrians R0) (frame_start R0 s0) = Inr s1"
    and i: "foldM (renderInstance ?R) (objectInstances R0) s1 = Inr s2"
    and v: "foldM (renderVehicle ?R) (vehicleInstances R0) s2 = Inr s3"
    and f: "flushTransparentDrawQueue ?R s3 = Inr s4"
    and e: "s' = emit [BindVertexArray (vao R0), UseSkyProgram, DrawSkydome (8 * 10 * 6), BindVertexArray 0]
                  (renderWater ?R s4)"
    by (auto simp: renderWorld_def frame_start_def Let_def split: sum.splits)
  have "opaque_step (frame_start R0 s0) s1"
    using p by (rule foldM_opaque_step) (rule renderPedestrian_opaque)
  moreover have "opaque_step s1 s2"
    using i by (rule foldM_opaque_step) (rule renderInstance_opaque)
  moreover have "opaque_step s2 s3"
    using v by (rule foldM_opaque_step) (rule renderVehicle_opaque)
  ultimately have o: "opaque_step (frame_start R0 s0) s3" by (meson opaque_step_trans)
  from f have "s4 = flushed ?R s3" by (rule flushTransparentDrawQueue_flushed)
  with p i v o e show ?thesis by blast
qed

lemma renderWorld_queue_empty:
  assumes "renderWorld R alpha s = Inr s'"
  shows "transparentDrawQueue s' = []"
proof -
  from renderWorld_frame[OF assms] obtain s3 where
    "s' = emit [BindVertexArray (vao R), UseSkyProgram, DrawSkydome (8 * 10 * 6), BindVertexArray 0]
            (renderWater (R\<lparr>renderAlpha := alpha\<rparr>) (flushed (R\<lparr>renderAlpha := alpha\<rparr>) s3))"
    by blast
  then show ?thesis unfolding renderWater_emit by (simp add: emit_def flushed_def)
qed

text \<open>
  C4, as amended. In the opaque pass, \<^verbatim>\<open>renderGeometry\<close> appends to the queue one
  entry for each subgeometry that was rejected, in order, each once, with the matrix of the
  attempt. A frame that \<^verbatim>\<open>renderWorld\<close> completes is the loop over the pedestrians, then
  the loop over the instances, then the loop over the vehicles and their wheels, then the
  flush of the queue these loops left, then the water and the sky. During the three loops
  the queue is only extended at its end, and every submission attempted has either issued
  its draw or left one entry in the queue. The flush replays every entry of the queue once,
  in queue order: it sets the model matrix to the stored matrix and the tint to white, and
  then submits the subgeometry through \<^verbatim>\<open>renderSubgeometry\<close> with deferral off, so
  that the texture is bound and, for a chunk flagged for per-material colour, the colour
  selection runs again and replaces the white tint before the draw; each replay issues exactly
  one draw, so the flush issues as many draws as the queue had entries. After the flush the
  queue is empty, also when it was empty before, and it is empty at the end of every frame
  that \<^verbatim>\<open>renderWorld\<close> completes.
\<close>

theorem transparent_queue_replay:
  "(g < length (geometries model) \<longrightarrow>
      (\<exists>s'. renderGeometry R model g modelMatrix object s = Inr s'
         \<and> transparentDrawQueue s' = transparentDrawQueue s
              @ map (queued model g modelMatrix object)
                    (filter (defers R model g) [0 ..< length (subgeom (geometries model ! g))])))
   \<and> (\<forall>s'. renderWorld R0 alpha s0 = Inr s' \<longrightarrow>
        (\<exists>s1 s2 s3.
           foldM (renderPedestrian (R0\<lparr>renderAlpha := alpha\<rparr>)) (pedestrians R0)
             (frame_start R0 s0) = Inr s1
         \<and> foldM (renderInstance (R0\<lparr>renderAlpha := alpha\<rparr>)) (objectInstances R0) s1 = Inr s2
         \<and> foldM (renderVehicle (R0\<lparr>renderAlpha := alpha\<rparr>)) (vehicleInstances R0) s2 = Inr s3
         \<and> opaque_step (frame_start R0 s0) s3
         \<and> s' = emit [BindVertexArray (vao R0), UseSkyProgram, DrawSkydome (8 * 10 * 6),
                        BindVertexArray 0]
                  (renderWater (R0\<lparr>renderAlpha := alpha\<rparr>)
                     (flushed (R0\<lparr>renderAlpha := alpha\<rparr>) s3))))
   \<and> (\<forall>s'. flushTransparentDrawQueue R s = Inr s' \<longrightarrow> s' = flushed R s)
   \<and> ((\<forall>it \<in> set (transparentDrawQueue s). drawCall_ok it) \<longrightarrow>
        flushTransparentDrawQueue R s =
          Inr (s\<lparr>rendered := rendered s + length (transparentDrawQueue s),
                 gl := gl s @ concat (map (replay_trace R) (transparentDrawQueue s)),
                 transparentDrawQueue := []\<rparr>))
   \<and> length (filter is_draw (replay_trace R it)) = 1
   \<and> length (filter is_draw (gl (flushed R s))) =
        length (filter is_draw (gl s)) + length (transparentDrawQueue s)
   \<and> (\<forall>s'. renderWorld R0 alpha s0 = Inr s' \<longrightarrow> transparentDrawQueue s' = [])"
  using renderGeometry_queue[of g model R modelMatrix object s] flushTransparentDrawQueue_eq[of s R]
    replay_trace_one_draw[of R it] renderWorld_queue_empty[of R0 alpha s0]
    renderWorld_frame[of R0 alpha s0] flushTransparentDrawQueue_flushed[of R s]
    flushed_draws[of R s]
  by blast

text \<open>
  The witness. The chunk \<open>ex_body\<close> has one part that is rejected, its glass part, and the
  flush of a queue holding that part replays it. In the world \<open>ex_scene\<close> the one instance
  is drawn in the opaque pass but for its glass part, which is the one entry of the queue
  after the loops; the frame replays it after them, with its matrix, and ends with six
  draws for six submissions attempted.
\<close>

theorem transparent_queue_replay_witness:
  "0 < length (geometries ex_model)
   \<and> list_all drawCall_ok (transparentDrawQueue ex_queued)
   \<and> (\<exists>s'. renderGeometry ex_R ex_model 0 mat4_identity None ex_state0 = Inr s'
          \<and> transparentDrawQueue s' = [queued ex_model 0 mat4_identity None 1])
   \<and> flushTransparentDrawQueue ex_R ex_queued =
       Inr (ex_queued\<lparr>rendered := 1,
                      gl := replay_trace ex_R (queued ex_model 0 mat4_identity None 1),
                      transparentDrawQueue := []\<rparr>)
   \<and> (\<exists>s3. foldM (renderInstance ex_scene) (objectInstances ex_scene)
               (frame_start ex_scene ex_state0) = Inr s3
          \<and> transparentDrawQueue s3 =
               [queued ex_model 0 (glm_translate mat4_identity (10, 0, 0)) None 1]
          \<and> renderWorld ex_scene 0 ex_state0 =
               Inr (emit [BindVertexArray (vao ex_scene), UseSkyProgram, DrawSkydome (8 * 10 * 6),
                          BindVertexArray 0]
                      (renderWater ex_scene (flushed ex_scene s3))))
   \<and> map_sum id gl (renderWorld ex_scene 0 ex_state0) =
       Inr [BindVertexArray 10, UseWorldProgram, ClearFrame,
            UniformCol 1 1 1 1, UniformModel (glm_translate mat4_identity (10, 0, 0)),
            UniformCol 1 1 1 1, BindVertexArray 3, BindBuffer 4, BindTexture 5,
            UniformMatDiffuse 1, UniformMatAmbient 1, DrawElements 4 3 0,
            UniformCol 1 1 1 1, UniformModel (glm_translate mat4_identity (10, 0, 0)),
            UniformCol 1 1 1 1, BindVertexArray 3, BindBuffer 4, BindTexture 5,
            UniformMatDiffuse 1, UniformMatAmbient 1, DrawElements 4 3 0,
            UniformModel (glm_translate mat4_identity (10, 0, 0)), UniformCol 1 1 1 1,
            BindVertexArray 1, BindBuffer 2, BindTexture 5, UniformCol 1 1 1 1,
            UniformMatDiffuse 1, UniformMatAmbient 1, DrawElements 4 3 0,
            BindVertexArray 1, BindBuffer 2,
            BindVertexArray 1, BindBuffer 2, UniformCol 1 1 1 1,
            UniformMatDiffuse 1, UniformMatAmbient 1, DrawElements 4 3 36,
            BindVertexArray 1, BindBuffer 2, DrawElements 4 3 48,
            UniformModel (glm_translate mat4_identity (10, 0, 0)), UniformCol 1 1 1 1,
            BindVertexArray 1, BindBuffer 2, BindTexture 7, UniformCol 1 0 0 1,
            UniformMatDiffuse 1, UniformMatAmbient 1, DrawElements 4 6 12,
            BindVertexArray 9, UseWaterProgram, BindTexture 8, UniformWaterSize 2,
            UniformWaterSize 4,
            BindVertexArray 10, UseSkyProgram, DrawSkydome 480, BindVertexArray 0]"
proof -
  have h1: "0 < length (geometries ex_model)" by (simp add: ex_defs)
  have h2: "\<forall>it \<in> set (transparentDrawQueue ex_queued). drawCall_ok it"
    by (simp add: ex_defs drawCall_ok_def queued_def)
  have f: "filter (defers ex_R ex_model 0) [0 ..< length (subgeom (geometries ex_model ! 0))] = [1]"
    by (simp add: ex_defs defers_def resolveTexture_def upt_rec)
  have q: "transparentDrawQueue ex_queued = [queued ex_model 0 mat4_identity None 1]"
    by (simp add: ex_queued_def)
  have z: "transparentDrawQueue ex_state0 = []" "rendered ex_queued = 0" "gl ex_queued = []"
    by (simp_all add: ex_queued_def ex_state0_def)
  have R: "ex_scene\<lparr>renderAlpha := 0\<rparr> = ex_scene" by (simp add: ex_scene_def ex_R_def)
  have lists: "pedestrians ex_scene = []" "vehicleInstances ex_scene = []"
    by (simp_all add: ex_scene_def ex_R_def)
  note th = transparent_queue_replay
              [where g = 0 and model = ex_model and R = ex_R and modelMatrix = mat4_identity
                 and object = None and s = ex_state0
                 and R0 = ex_scene and alpha = 0 and s0 = ex_state0]
            transparent_queue_replay
              [where g = 0 and model = ex_model and R = ex_R and modelMatrix = mat4_identity
                 and object = None and s = ex_queued
                 and R0 = ex_scene and alpha = 0 and s0 = ex_state0]
  have a: "\<exists>s'. renderGeometry ex_R ex_model 0 mat4_identity None ex_state0 = Inr s'
          \<and> transparentDrawQueue s' = [queued ex_model 0 mat4_identity None 1]"
    using th(1) h1 by (simp add: f z)
  have b: "flushTransparentDrawQueue ex_R ex_queued =
       Inr (ex_queued\<lparr>rendered := 1,
                      gl := replay_trace ex_R (queued ex_model 0 mat4_identity None 1),
                      transparentDrawQueue := []\<rparr>)"
    using th(2) h2 by (simp add: q z)
  have tr: "map_sum id gl (renderWorld ex_scene 0 ex_state0) =
       Inr [BindVertexArray 10, UseWorldProgram, ClearFrame,
            UniformCol 1 1 1 1, UniformModel (glm_translate mat4_identity (10, 0, 0)),
            UniformCol 1 1 1 1, BindVertexArray 3, BindBuffer 4, BindTexture 5,
            UniformMatDiffuse 1, UniformMatAmbient 1, DrawElements 4 3 0,
            UniformCol 1 1 1 1, UniformModel (glm_translate mat4_identity (10, 0, 0)),
            UniformCol 1 1 1 1, BindVertexArray 3, BindBuffer 4, BindTexture 5,
            UniformMatDiffuse 1, UniformMatAmbient 1, DrawElements 4 3 0,
            UniformModel (glm_translate mat4_identity (10, 0, 0)), UniformCol 1 1 1 1,
            BindVertexArray 1, BindBuffer 2, BindTexture 5, UniformCol 1 1 1 1,
            UniformMatDiffuse 1, UniformMatAmbient 1, DrawElements 4 3 0,
            BindVertexArray 1, BindBuffer 2,
            BindVertexArray 1, BindBuffer 2, UniformCol 1 1 1 1,
            UniformMatDiffuse 1, UniformMatAmbient 1, DrawElements 4 3 36,
            BindVertexArray 1, BindBuffer 2, DrawElements 4 3 48,
            UniformModel (glm_translate mat4_identity (10, 0, 0)), UniformCol 1 1 1 1,
            BindVertexArray 1, BindBuffer 2, BindTexture 7, UniformCol 1 0 0 1,
            UniformMatDiffuse 1, UniformMatAmbient 1, DrawElements 4 6 12,
            BindVertexArray 9, UseWaterProgram, BindTexture 8, UniformWaterSize 2,
            UniformWaterSize 4,
            BindVertexArray 10, UseSkyProgram, DrawSkydome 480, BindVertexArray 0]"
    by (simp add: ex_defs glm_defs render_defs Let_def upt_rec renderWorld_def renderInstance_def
          instance_mindist_def instance_matrixModel_def flushTransparentDrawQueue_def
          replayDrawCall_def renderWater_emit drawsHQ_def drawsLQ_def grid_def
          blockHQSize_def blockLQSize_def)
  have qi: "map_sum id transparentDrawQueue
              (foldM (renderInstance ex_scene) (objectInstances ex_scene)
                 (frame_start ex_scene ex_state0)) =
            Inr [queued ex_model 0 (glm_translate mat4_identity (10, 0, 0)) None 1]"
    by (simp add: ex_defs glm_defs render_defs queued_def Let_def upt_rec renderInstance_def
          frame_start_def instance_mindist_def instance_matrixModel_def)
  from tr obtain s' where r: "renderWorld ex_scene 0 ex_state0 = Inr s'"
    by (cases "renderWorld ex_scene 0 ex_state0") simp_all
  from th(1) r obtain s1 s2 s3 where
    p: "foldM (renderPedestrian (ex_scene\<lparr>renderAlpha := 0\<rparr>)) (pedestrians ex_scene)
          (frame_start ex_scene ex_state0) = Inr s1"
    and i: "foldM (renderInstance (ex_scene\<lparr>renderAlpha := 0\<rparr>)) (objectInstances ex_scene) s1 = Inr s2"
    and v: "foldM (renderVehicle (ex_scene\<lparr>renderAlpha := 0\<rparr>)) (vehicleInstances ex_scene) s2 = Inr s3"
    and e: "s' = emit [BindVertexArray (vao ex_scene), UseSkyProgram, DrawSkydome (8 * 10 * 6),
                       BindVertexArray 0]
                  (renderWater (ex_scene\<lparr>renderAlpha := 0\<rparr>)
                     (flushed (ex_scene\<lparr>renderAlpha := 0\<rparr>) s3))"
    by blast
  from p have s1: "s1 = frame_start ex_scene ex_state0" by (simp add: lists)
  from v have s3: "s3 = s2" by (simp add: lists)
  from i have i': "foldM (renderInstance ex_scene) (objectInstances ex_scene)
                     (frame_start ex_scene ex_state0) = Inr s3"
    by (simp add: R s1 s3)
  from qi i' have q3: "transparentDrawQueue s3 =
                         [queued ex_model 0 (glm_translate mat4_identity (10, 0, 0)) None 1]"
    by simp
  from r e have w: "renderWorld ex_scene 0 ex_state0 =
               Inr (emit [BindVertexArray (vao ex_scene), UseSkyProgram, DrawSkydome (8 * 10 * 6),
                          BindVertexArray 0]
                      (renderWater ex_scene (flushed ex_scene s3)))"
    by (simp add: R)
  from i' q3 w have c: "\<exists>s3. foldM (renderInstance ex_scene) (objectInstances ex_scene)
               (frame_start ex_scene ex_state0) = Inr s3
          \<and> transparentDrawQueue s3 =
               [queued ex_model 0 (glm_translate mat4_identity (10, 0, 0)) None 1]
          \<and> renderWorld ex_scene 0 ex_state0 =
               Inr (emit [BindVertexArray (vao ex_scene), UseSkyProgram, DrawSkydome (8 * 10 * 6),
                          BindVertexArray 0]
                      (renderWater ex_scene (flushed ex_scene s3)))"
    by blast
  from h2 have h2': "list_all drawCall_ok (transparentDrawQueue ex_queued)"
    by (simp add: list_all_iff)
  from h1 h2' a b c tr show ?thesis by blast
qed

text \<open>
  The claim C4 as it was stated fails where it says that the replay bypasses the colour
  selection and draws with a white tint. The queued entry is the glass part of
  \<open>ex_body\<close>, a chunk flagged for per-material colour whose material is red: the flush sets
  the tint to white, and \<^verbatim>\<open>renderSubgeometry\<close> then sets it to red before the draw.
\<close>

theorem transparent_replay_tint_counterexample:
  "transparentDrawQueue ex_queued = [queued ex_model 0 mat4_identity None 1]
   \<and> map_sum id gl (flushTransparentDrawQueue ex_R ex_queued) =
       Inr [UniformModel mat4_identity, UniformCol 1 1 1 1, BindVertexArray 1, BindBuffer 2,
            BindTexture 7, UniformCol 1 0 0 1, UniformMatDiffuse 1, UniformMatAmbient 1,
            DrawElements 4 6 12]"
  by (simp add: ex_defs queued_def flushTransparentDrawQueue_def replayDrawCall_def render_defs Let_def)

subsection \<open>Objects whose model is not loaded\<close>

lemma renderPedestrian_unloaded:
  "obj_model charac = Some None \<Longrightarrow> renderPedestrian R charac s = Inr s"
  by (simp add: renderPedestrian_def Let_def)

lemma renderInstance_unloaded:
  "inst_model inst = Some None \<Longrightarrow> renderInstance R inst s = Inr s"
  by (simp add: renderInstance_def Let_def)

lemma foldM_skip:
  assumes "\<And>x s. \<not> P x \<Longrightarrow> f x s = Inr s"
  shows "foldM f xs s = foldM f (filter P xs) s"
proof (induction xs arbitrary: s)
  case Nil
  then show ?case by simp
next
  case (Cons x xs)
  show ?case
  proof (cases "P x")
    case True
    then show ?thesis using Cons.IH by (simp split: sum.splits)
  next
    case False
    then show ?thesis using Cons.IH assms[of x s] by simp
  qed
qed

text \<open>
  C6, as amended. A pedestrian or an instance whose model handle holds no model is skipped
  for the frame without a message: its iteration leaves the renderer as it found it (nothing
  is traversed, drawn, counted or printed), and the loops over the pedestrians and over the
  instances run as they would without these objects. The skip keeps no record, so the test
  is made afresh when the next frame is rendered.
\<close>

theorem unloaded_model_skipped:
  "(obj_model charac = Some None \<longrightarrow> renderPedestrian R charac s = Inr s)
   \<and> (inst_model inst = Some None \<longrightarrow> renderInstance R inst s = Inr s)
   \<and> foldM (renderPedestrian R) cs s =
       foldM (renderPedestrian R) (filter (\<lambda>c. obj_model c \<noteq> Some None) cs) s
   \<and> foldM (renderInstance R) insts s =
       foldM (renderInstance R) (filter (\<lambda>i. inst_model i \<noteq> Some None) insts) s"
proof (intro conjI impI)
  show "foldM (renderPedestrian R) cs s =
          foldM (renderPedestrian R) (filter (\<lambda>c. obj_model c \<noteq> Some None) cs) s"
    by (rule foldM_skip) (simp add: renderPedestrian_unloaded)
  show "foldM (renderInstance R) insts s =
          foldM (renderInstance R) (filter (\<lambda>i. inst_model i \<noteq> Some None) insts) s"
    by (rule foldM_skip) (simp add: renderInstance_unloaded)
qed (simp_all add: renderPedestrian_unloaded renderInstance_unloaded)

theorem unloaded_model_skipped_witness:
  "obj_model (ex_object Character (Some None)) = Some None
   \<and> inst_model ex_unloaded = Some None
   \<and> renderPedestrian ex_R (ex_object Character (Some None)) ex_state0 = Inr ex_state0
   \<and> renderInstance ex_R ex_unloaded ex_state0 = Inr ex_state0
   \<and> foldM (renderInstance ex_R) [ex_unloaded, ex_tower] ex_state0 =
       foldM (renderInstance ex_R) [ex_tower] ex_state0"
proof -
  have h1: "obj_model (ex_object Character (Some None)) = Some None" by (simp add: ex_defs)
  have h2: "inst_model ex_unloaded = Some None" by (simp add: ex_defs)
  have h3: "inst_model ex_tower \<noteq> Some None" by (simp add: ex_defs)
  note th = unloaded_model_skipped
              [where charac = "ex_object Character (Some None)" and inst = ex_unloaded and R = ex_R
                 and s = ex_state0 and cs = "[]" and insts = "[ex_unloaded, ex_tower]"]
  from th h1 have a: "renderPedestrian ex_R (ex_object Character (Some None)) ex_state0 = Inr ex_state0"
    by blast
  from th h2 have b: "renderInstance ex_R ex_unloaded ex_state0 = Inr ex_state0" by blast
  from th have "foldM (renderInstance ex_R) [ex_unloaded, ex_tower] ex_state0 =
                  foldM (renderInstance ex_R)
                    (filter (\<lambda>i. inst_model i \<noteq> Some None) [ex_unloaded, ex_tower]) ex_state0"
    by blast
  then have c: "foldM (renderInstance ex_R) [ex_unloaded, ex_tower] ex_state0 =
                  foldM (renderInstance ex_R) [ex_tower] ex_state0"
    using h2 h3 by simp
  from h1 h2 a b c show ?thesis by blast
qed

text \<open>
  The claim C6 as it was stated fails for vehicles, and for the message. A vehicle whose
  \<^verbatim>\<open>model\<close> is null gets the message, and is then dereferenced at line 397: the frame
  does not complete. A vehicle whose handle holds no model is handed to
  \<^verbatim>\<open>renderModel\<close> as a null pointer. A pedestrian whose handle holds no model is skipped,
  and nothing is printed.
\<close>

theorem unloaded_vehicle_counterexample:
  "obj_model (veh_object (ex_vehicle None)) = None
   \<and> renderWorld (ex_R\<lparr>vehicleInstances := [ex_vehicle None]\<rparr>) 0 ex_state0 = Inl NullPointer
   \<and> obj_model (veh_object (ex_vehicle (Some None))) = Some None
   \<and> renderWorld (ex_R\<lparr>vehicleInstances := [ex_vehicle (Some None)]\<rparr>) 0 ex_state0 = Inl NullPointer
   \<and> obj_model (ex_object Character (Some None)) = Some None
   \<and> renderPedestrian ex_R (ex_object Character (Some None)) ex_state0 = Inr ex_state0
   \<and> cout ex_state0 = []"
  by (simp add: ex_defs renderWorld_def renderVehicle_def renderPedestrian_def Let_def)

subsection \<open>Time of day\<close>

text \<open>
  C8. The instance \<open>ex_shop\<close> is switched on at 6 and off at 20. At 3 o'clock, outside
  that window, lines 316-322 do not skip it: it is rendered as it is at noon, and five
  subgeometries are submitted.
\<close>

theorem renderInstance_day_window_not_skipped:
  "timeOn (inst_object ex_shop) = 6 \<and> timeOff (inst_object ex_shop) = 20
   \<and> getHour (ex_R\<lparr>getHour := 3\<rparr>) = 3
   \<and> renderInstance (ex_R\<lparr>getHour := 3\<rparr>) ex_shop ex_state0
       = renderInstance (ex_R\<lparr>getHour := 12\<rparr>) ex_shop ex_state0
   \<and> map_sum id rendered (renderInstance (ex_R\<lparr>getHour := 3\<rparr>) ex_shop ex_state0) = Inr 5"
  by (simp add: ex_defs glm_defs render_defs renderInstance_def instance_mindist_def
        instance_matrixModel_def Let_def upt_rec)

subsection \<open>Water\<close>

text \<open>
  C7, as amended. The water pass draws, in grid order, exactly the tiles of the HQ grid that
  satisfy \<open>drawsHQ\<close> and then exactly the tiles of the LQ grid that satisfy \<open>drawsLQ\<close>. A
  tile of the HQ grid is drawn iff the planar distance from the camera to the tile centre,
  minus the whole HQ tile size, is less than the HQ distance and its height-table entry is
  below the no-water sentinel. A tile of the LQ grid is drawn iff the planar distance from the
  camera to its centre, minus a quarter of the HQ tile size, is at least the HQ distance,
  that distance minus half the LQ tile size is at most the far clip, and its height-table
  entry is below the sentinel.
\<close>

theorem water_tiles_drawn:
  "renderWater R s =
     emit ([BindVertexArray (waterDraw_VAOName R), UseWaterProgram, BindTexture (water_texName R),
            UniformWaterSize (blockHQSize R)]
           @ concat (map (waterTile_calls R (blockHQSize R) (gameData_realWater R) (WATER_HQ_DATA_SIZE R))
                         (filter (drawsHQ R) (grid (WATER_HQ_DATA_SIZE R))))
           @ [UniformWaterSize (blockLQSize R)]
           @ concat (map (waterTile_calls R (blockLQSize R) (gameData_visibleWater R) (WATER_LQ_DATA_SIZE R))
                         (filter (drawsLQ R) (grid (WATER_LQ_DATA_SIZE R))))) s
   \<and> (drawsHQ R (x, y) \<longleftrightarrow>
        vec2_distance (camposFlat R) (cullWS R (blockHQSize R) (x, y)) - blockHQSize R < WATER_HQ_DISTANCE R
        \<and> gameData_realWater R (x * WATER_HQ_DATA_SIZE R + y) < NO_WATER_INDEX R)
   \<and> (drawsLQ R (x, y) \<longleftrightarrow>
        WATER_HQ_DISTANCE R \<le> vec2_distance (camposFlat R) (cullWS R (blockLQSize R) (x, y)) - blockHQSize R / 4
        \<and> vec2_distance (camposFlat R) (cullWS R (blockLQSize R) (x, y)) - blockLQSize R / 2
            \<le> camera_frustum_far R
        \<and> gameData_visibleWater R (x * WATER_LQ_DATA_SIZE R + y) < NO_WATER_INDEX R)"
  using renderWater_emit[of R s] by (auto simp: drawsHQ_def drawsLQ_def)

text \<open>
  The claim C7 as it was stated fails in both halves. With the camera at \<open>(-3, -1)\<close>, the
  HQ tile \<open>(0, 0)\<close> (size 2, centre \<open>(-3, -3)\<close>, distance 2, HQ distance 1/2) is drawn
  although its distance minus half the tile size is not below the HQ distance. With the
  camera at \<open>(-3, -2)\<close>, the HQ tile \<open>(0, 0)\<close> and the LQ tile \<open>(0, 0)\<close>, which lie at
  the same position, are both drawn.
\<close>

theorem water_tiles_counterexample:
  "drawsHQ (ex_R\<lparr>camera_worldPos := (- 3, - 1, 0)\<rparr>) (0, 0)
   \<and> \<not> (vec2_distance (camposFlat (ex_R\<lparr>camera_worldPos := (- 3, - 1, 0)\<rparr>))
            (cullWS (ex_R\<lparr>camera_worldPos := (- 3, - 1, 0)\<rparr>)
                    (blockHQSize (ex_R\<lparr>camera_worldPos := (- 3, - 1, 0)\<rparr>)) (0, 0))
          - blockHQSize (ex_R\<lparr>camera_worldPos := (- 3, - 1, 0)\<rparr>) / 2
          < WATER_HQ_DISTANCE (ex_R\<lparr>camera_worldPos := (- 3, - 1, 0)\<rparr>))
   \<and> drawsHQ (ex_R\<lparr>camera_worldPos := (- 3, - 2, 0)\<rparr>) (0, 0)
   \<and> drawsLQ (ex_R\<lparr>camera_worldPos := (- 3, - 2, 0)\<rparr>) (0, 0)
   \<and> waterWS (ex_R\<lparr>camera_worldPos := (- 3, - 2, 0)\<rparr>)
             (blockHQSize (ex_R\<lparr>camera_worldPos := (- 3, - 2, 0)\<rparr>)) (0, 0)
       = waterWS (ex_R\<lparr>camera_worldPos := (- 3, - 2, 0)\<rparr>)
                 (blockLQSize (ex_R\<lparr>camera_worldPos := (- 3, - 2, 0)\<rparr>)) (0, 0)"
  by (simp add: ex_R_def drawsHQ_def drawsLQ_def camposFlat_def cullWS_def waterWS_def
        blockHQSize_def blockLQSize_def)

end
